theory Spec2Isabelle
  imports Main
begin

section \<open>The daily task list of \<open>src/app.js\<close>\<close>

text \<open>
  The program keeps one module-level variable \<open>state\<close> (tasks, dailyRoutine, settings,
  lastOpenDate), mutates it from event handlers and writes it to \<open>localStorage\<close> after
  each change. The model below follows the source function by function.

  \<^item> Task and template objects are JavaScript objects: a list of (key, value) pairs in
    insertion order (the keys are names, not array indices, which JavaScript would list
    first), kept in a store and referred to by address, because the source
    mutates them in place (\<open>task.completed = ...\<close>, \<open>state.dailyRoutine[index].text = ...\<close>)
    and shares the default templates between \<open>DEFAULT_DAILY_TASKS\<close> and
    \<open>state.dailyRoutine\<close>. An object literal allocates a new address.
  \<^item> The two arrays \<open>state.tasks\<close> and \<open>state.dailyRoutine\<close> are lists of addresses. Every
    array the source assigns to them is built on the spot (\<open>map\<close>, a spread literal,
    \<open>JSON.parse\<close>), so no array is reachable under two names and a list value is exact.
  \<^item> The host is part of the world: the sequence of strings that
    \<open>Math.random().toString(36)\<close> returns (with the number of draws made so far) and the
    payloads handed to \<open>localStorage.setItem\<close>, oldest first. A function that reads
    \<open>new Date().toDateString()\<close> takes the string it reads as an argument.
  \<^item> A thrown exception is the left summand of the result, with the world as the throw
    leaves it.
  \<^item> Rendering (\<open>renderTasks\<close>, \<open>renderDailySettings\<close>, \<open>applySettings\<close>, \<open>updateTime\<close>) writes
    to the page only. The functions that change the state are modelled up to their
    trailing render call; the section on rendering says when that call throws, and
    \<open>rendering_returns\<close> shows that it returns whenever the stored texts are strings.
    \<open>localStorage.setItem\<close> is taken to succeed.
\<close>

subsection \<open>Values, objects, strings\<close>

text \<open>The primitive values that a property of a task or template holds.\<close>

datatype val = JUndefined | JNull | JBool bool | JStr string

type_synonym obj = "(string \<times> val) list"

type_synonym addr = nat

text \<open>JavaScript's ToBoolean on these values.\<close>

fun truthy :: "val \<Rightarrow> bool" where
  "truthy JUndefined = False"
| "truthy JNull = False"
| "truthy (JBool b) = b"
| "truthy (JStr s) = (s \<noteq> [])"

text \<open>\<open>o.k\<close>: the value of an own property, \<open>undefined\<close> when the object has none.\<close>

definition getProp :: "string \<Rightarrow> obj \<Rightarrow> val" where
  "getProp k ob = (case map_of ob k of None \<Rightarrow> JUndefined | Some v \<Rightarrow> v)"

text \<open>
  \<open>o.k = v\<close>, and a property \<open>k: v\<close> of an object literal after a spread: an existing key
  keeps its place and takes the new value, a new key goes last.
\<close>

fun setProp :: "string \<Rightarrow> val \<Rightarrow> obj \<Rightarrow> obj" where
  "setProp k v [] = [(k, v)]"
| "setProp k v ((k', v') # ps) = (if k' = k then (k, v) # ps else (k', v') # setProp k v ps)"

text \<open>
  \<open>String.prototype.trim\<close> strips white space and line terminators from both ends. A
  \<open>char\<close> stands for a code unit below 256, where these are TAB, LF, VT, FF, CR, SP and
  NBSP.
\<close>

definition isWhiteSpace :: "char \<Rightarrow> bool" where
  "isWhiteSpace c = ((of_char c :: nat) \<in> {9, 10, 11, 12, 13, 32, 160})"

definition trim :: "string \<Rightarrow> string" where
  "trim s = rev (dropWhile isWhiteSpace (rev (dropWhile isWhiteSpace s)))"

subsection \<open>The state and the host\<close>

record settings =
  font :: int
  timeFormat :: string
  dateFormat :: string
  themeColor :: string

text \<open>What \<open>JSON.stringify(state)\<close> writes: the state with every object by value.\<close>

record persisted =
  p_tasks :: "obj list"
  p_dailyRoutine :: "obj list"
  p_settings :: settings
  p_lastOpenDate :: val

text \<open>
  The fields \<open>tasks\<close>, \<open>dailyRoutine\<close>, \<open>settings\<close> and \<open>lastOpenDate\<close> are the source's
  \<open>state\<close>; \<open>heap\<close> is the store of objects (an address is an index into it);
  \<open>Math_random k\<close> is what the \<open>k\<close>-th call of \<open>Math.random().toString(36)\<close> returns and
  \<open>draws\<close> counts the calls made; \<open>written\<close> lists the payloads of \<open>localStorage.setItem\<close>.
\<close>

record world =
  tasks :: "addr list"
  dailyRoutine :: "addr list"
  settings :: settings
  lastOpenDate :: val
  heap :: "obj list"
  Math_random :: "nat \<Rightarrow> string"
  draws :: nat
  written :: "persisted list"

datatype js_error = SyntaxError | TypeError

type_synonym outcome = "(js_error \<times> world) + world"

text \<open>The three objects of the array literal \<open>DEFAULT_DAILY_TASKS\<close>, allocated at load.\<close>

definition DEFAULT_DAILY_TASKS_objects :: "obj list" where
  "DEFAULT_DAILY_TASKS_objects =
    [[(''id'', JStr ''dt1''), (''text'', JStr ''Morning Stretch''), (''type'', JStr ''daily'')],
     [(''id'', JStr ''dt2''), (''text'', JStr ''Read 15 Mins''), (''type'', JStr ''daily'')],
     [(''id'', JStr ''dt3''), (''text'', JStr ''Clear Inbox''), (''type'', JStr ''daily'')]]"

definition DEFAULT_DAILY_TASKS :: "addr list" where
  "DEFAULT_DAILY_TASKS = [0, 1, 2]"

text \<open>The world when the script starts: the \<open>state\<close> literal and the default templates.\<close>

definition initial :: "(nat \<Rightarrow> string) \<Rightarrow> world" where
  "initial rnd =
    \<lparr>tasks = [], dailyRoutine = [],
     settings = \<lparr>font = 1, timeFormat = ''12h'', dateFormat = ''Month'', themeColor = ''green''\<rparr>,
     lastOpenDate = JNull, heap = DEFAULT_DAILY_TASKS_objects, Math_random = rnd, draws = 0,
     written = []\<rparr>"

subsection \<open>Helpers and persistence\<close>

text \<open>
  \<open>generateId\<close>: \<open>'_' + Math.random().toString(36).substr(2, 9)\<close>. \<open>idOfDraw r\<close> is the
  identifier made from the string \<open>r\<close> that \<open>Math.random().toString(36)\<close> returned.
\<close>

definition idOfDraw :: "string \<Rightarrow> string" where
  "idOfDraw r = ''_'' @ take 9 (drop 2 r)"

definition generateId :: "world \<Rightarrow> string \<times> world" where
  "generateId w = (idOfDraw (Math_random w (draws w)), w\<lparr>draws := Suc (draws w)\<rparr>)"

text \<open>An object literal: the new object gets the next free address.\<close>

definition alloc :: "obj \<Rightarrow> world \<Rightarrow> addr \<times> world" where
  "alloc ob w = (length (heap w), w\<lparr>heap := heap w @ [ob]\<rparr>)"

definition snapshot :: "world \<Rightarrow> persisted" where
  "snapshot w =
    \<lparr>p_tasks = map (\<lambda>r. heap w ! r) (tasks w),
     p_dailyRoutine = map (\<lambda>r. heap w ! r) (dailyRoutine w),
     p_settings = settings w, p_lastOpenDate = lastOpenDate w\<rparr>"

definition saveState :: "world \<Rightarrow> world" where
  "saveState w = w\<lparr>written := written w @ [snapshot w]\<rparr>"

text \<open>
  The object literal \<open>{...t, id: i, completed: false, dateAdded: d}\<close>: the properties of
  \<open>t\<close>, then the three named ones.
\<close>

definition taskFrom :: "obj \<Rightarrow> string \<Rightarrow> string \<Rightarrow> obj" where
  "taskFrom t i d =
    setProp ''dateAdded'' (JStr d) (setProp ''completed'' (JBool False) (setProp ''id'' (JStr i) t))"

text \<open>
  The arrow function \<open>t => ({...t, id: generateId(), completed: false, dateAdded: d})\<close> of
  \<open>ensureDailyTasks\<close>, \<open>loadState\<close> and \<open>performDailyReset\<close>, and \<open>Array.prototype.map\<close> over
  it: one call per element, first to last.
\<close>

definition instantiate :: "string \<Rightarrow> addr \<Rightarrow> world \<Rightarrow> addr \<times> world" where
  "instantiate d t w =
    (let (i, w1) = generateId w in alloc (taskFrom (heap w1 ! t) i d) w1)"

fun instantiateAll :: "string \<Rightarrow> addr list \<Rightarrow> world \<Rightarrow> addr list \<times> world" where
  "instantiateAll d [] w = ([], w)"
| "instantiateAll d (t # ts) w =
    (let (r, w1) = instantiate d t w; (rs, w2) = instantiateAll d ts w1 in (r # rs, w2))"

text \<open>
  The objects that \<open>instantiateAll d ts\<close> allocates in world \<open>w\<close>, in order: the \<open>k\<close>-th is made
  from the \<open>k\<close>-th template with the identifier of draw number \<open>draws w + k\<close>.
\<close>

definition newTasks :: "string \<Rightarrow> addr list \<Rightarrow> world \<Rightarrow> obj list" where
  "newTasks d ts w =
    map (\<lambda>(t, k). taskFrom (heap w ! t) (idOfDraw (Math_random w k)) d)
      (zip ts [draws w ..< draws w + length ts])"

subsection \<open>Rendering\<close>

text \<open>
  \<open>renderTasks\<close> and \<open>renderDailySettings\<close> rebuild a list in the page from the state and change
  no state. On the values of this model the one call in them that can throw is
  \<open>escapeHtml(task.text)\<close>: it returns the empty string for a falsy argument, replaces five
  characters of a string, and for any other value calls a \<open>replace\<close> that does not exist
  (TypeError). The page and the icon library are taken to work. Both functions are
  outcomes: the world unchanged, returned or thrown.

  \<open>performDailyReset\<close>, \<open>addTask\<close> and \<open>toggleTask\<close> end with \<open>renderTasks()\<close>, and
  \<open>removeDailyTask\<close> and \<open>addDailyTemplate\<close> with \<open>renderDailySettings()\<close>. The functions of
  these names below describe the source function up to that last call: the world they
  return is the world in which rendering starts, and which it leaves whether it returns
  or throws. The callers \<open>init\<close> and \<open>perform\<close> run the render call and pass its exception
  on. Lemma \<open>rendering_returns\<close> shows that it returns in every world reached from a stored
  item whose texts are strings or falsy.
\<close>

definition replaceAll :: "char \<Rightarrow> string \<Rightarrow> string \<Rightarrow> string" where
  "replaceAll c r s = concat (map (\<lambda>x. if x = c then r else [x]) s)"

definition escapeHtml :: "val \<Rightarrow> js_error + string" where
  "escapeHtml v =
    (if \<not> truthy v then Inr []
     else (case v of
        JStr s \<Rightarrow>
          Inr (replaceAll (CHR 0x27) ''&#039;''
                (replaceAll (CHR 0x22) ''&quot;''
                  (replaceAll (CHR ''>'') ''&gt;''
                    (replaceAll (CHR ''<'') ''&lt;''
                      (replaceAll (CHR ''&'') ''&amp;'' s)))))
      | _ \<Rightarrow> Inl TypeError))"

definition renderTasks :: "world \<Rightarrow> outcome" where
  "renderTasks w =
    (if list_ex (\<lambda>t. isl (escapeHtml (getProp ''text'' (heap w ! t)))) (tasks w)
     then Inl (TypeError, w) else Inr w)"

definition renderDailySettings :: "world \<Rightarrow> outcome" where
  "renderDailySettings w =
    (if list_ex (\<lambda>t. isl (escapeHtml (getProp ''text'' (heap w ! t)))) (dailyRoutine w)
     then Inl (TypeError, w) else Inr w)"

subsection \<open>Midnight logic and backfill\<close>

definition performDailyReset :: "string \<Rightarrow> world \<Rightarrow> world" where
  "performDailyReset todayDate w =
    (let (newDailyTasks, w1) = instantiateAll todayDate (dailyRoutine w) w
     in saveState (w1\<lparr>tasks := newDailyTasks, lastOpenDate := JStr todayDate\<rparr>))"

definition checkMidnightReset :: "string \<Rightarrow> world \<Rightarrow> world" where
  "checkMidnightReset today w =
    (if lastOpenDate w \<noteq> JStr today then performDailyReset today w else w)"

definition resetDailyTasks :: "string \<Rightarrow> world \<Rightarrow> world" where
  "resetDailyTasks today w = performDailyReset today w"

definition hasDailyTasks :: "world \<Rightarrow> bool" where
  "hasDailyTasks w = list_ex (\<lambda>t. getProp ''type'' (heap w ! t) = JStr ''daily'') (tasks w)"

definition ensureDailyTasks :: "string \<Rightarrow> world \<Rightarrow> world" where
  "ensureDailyTasks today w =
    (if \<not> hasDailyTasks w \<and> length (dailyRoutine w) > 0
     then (let (dailyTasksToAdd, w1) = instantiateAll today (dailyRoutine w) w
           in saveState (w1\<lparr>tasks := dailyTasksToAdd @ tasks w1\<rparr>))
     else w)"

subsection \<open>Loading\<close>

text \<open>
  What \<open>localStorage.getItem(STORAGE_KEY)\<close> and \<open>JSON.parse\<close> make of the stored item:
  no item (\<open>null\<close>), the empty string (falsy like \<open>null\<close>), a text that \<open>JSON.parse\<close> rejects
  with a SyntaxError, or a text that parses. Of the parsed value the model keeps the four
  keys of the state (a value that is not an object has none of them, and the spread then
  copies nothing). A key can be missing; \<open>dailyRoutine\<close> can also be present with a falsy
  value (\<open>null\<close>), which the source tests for. A key that is present with a value of
  another kind than the state's (\<open>tasks: null\<close>, a number for \<open>dailyRoutine\<close>) has no value
  in this type: there the source throws a TypeError later, in \<open>ensureDailyTasks\<close>, in
  \<open>performDailyReset\<close> or in rendering.
\<close>

datatype 'a field = Missing | Falsy | Given 'a

record saved =
  s_tasks :: "obj list option"
  s_dailyRoutine :: "obj list field"
  s_settings :: "settings option"
  s_lastOpenDate :: "val option"

datatype item = NoItem | EmptyText | Malformed | Parsed saved

text \<open>\<open>JSON.parse\<close> builds new objects: each object of a parsed array is allocated.\<close>

fun allocAll :: "obj list \<Rightarrow> world \<Rightarrow> addr list \<times> world" where
  "allocAll [] w = ([], w)"
| "allocAll (ob # obs) w =
    (let (r, w1) = alloc ob w; (rs, w2) = allocAll obs w1 in (r # rs, w2))"

text \<open>
  \<open>state = { ...state, ...saved }\<close> followed by
  \<open>if (!state.dailyRoutine) state.dailyRoutine = [...DEFAULT_DAILY_TASKS]\<close>: a key of
  \<open>saved\<close> replaces the field, a missing key leaves what \<open>state\<close> held.
\<close>

definition mergeSaved :: "saved \<Rightarrow> world \<Rightarrow> world" where
  "mergeSaved sv w =
    (let w1 = (case s_tasks sv of None \<Rightarrow> w
               | Some obs \<Rightarrow> (let (rs, w') = allocAll obs w in w'\<lparr>tasks := rs\<rparr>));
         w2 = (case s_dailyRoutine sv of Missing \<Rightarrow> w1
               | Falsy \<Rightarrow> w1\<lparr>dailyRoutine := DEFAULT_DAILY_TASKS\<rparr>
               | Given obs \<Rightarrow> (let (rs, w') = allocAll obs w1 in w'\<lparr>dailyRoutine := rs\<rparr>));
         w3 = (case s_settings sv of None \<Rightarrow> w2 | Some st \<Rightarrow> w2\<lparr>settings := st\<rparr>)
     in (case s_lastOpenDate sv of None \<Rightarrow> w3 | Some d \<Rightarrow> w3\<lparr>lastOpenDate := d\<rparr>))"

text \<open>
  \<open>if (raw)\<close> is false for \<open>null\<close> and for the empty string: the first run. \<open>JSON.parse\<close>
  throws before \<open>state\<close> is assigned.
\<close>

definition loadState :: "item \<Rightarrow> string \<Rightarrow> world \<Rightarrow> outcome" where
  "loadState raw today w =
    (case raw of
       Malformed \<Rightarrow> Inl (SyntaxError, w)
     | Parsed sv \<Rightarrow> Inr (mergeSaved sv w)
     | _ \<Rightarrow>
        (let w1 = w\<lparr>dailyRoutine := DEFAULT_DAILY_TASKS, lastOpenDate := JStr today\<rparr>;
             (ts, w2) = instantiateAll today (dailyRoutine w1) w1
         in Inr (saveState (w2\<lparr>tasks := ts\<rparr>))))"

text \<open>
  \<open>init\<close>: \<open>loadState(); checkMidnightReset(); applySettings(); ensureDailyTasks();
  renderTasks(); renderDailySettings()\<close>, and then the clock and the event listeners, which
  touch no state. Each of the first three reads the clock itself: \<open>d1\<close>, \<open>d2\<close> and \<open>d3\<close> are
  what they read. When the reset is performed, the \<open>renderTasks()\<close> that ends
  \<open>performDailyReset\<close> runs before the backfill check, and an exception from it ends \<open>init\<close>
  there. \<open>reconcile\<close> is the effect on the state of the two checks in a row: the reset
  check, then the backfill check.
\<close>

definition reconcile :: "string \<Rightarrow> string \<Rightarrow> world \<Rightarrow> world" where
  "reconcile d2 d3 w = ensureDailyTasks d3 (checkMidnightReset d2 w)"

definition init :: "item \<Rightarrow> string \<Rightarrow> string \<Rightarrow> string \<Rightarrow> world \<Rightarrow> outcome" where
  "init raw d1 d2 d3 w =
    (case loadState raw d1 w of
       Inl e \<Rightarrow> Inl e
     | Inr w1 \<Rightarrow>
        (let w2 = checkMidnightReset d2 w1
         in if lastOpenDate w1 \<noteq> JStr d2 \<and> isl (renderTasks w2) then Inl (TypeError, w2)
            else (let w3 = ensureDailyTasks d3 w2
                  in case renderTasks w3 of
                       Inl e \<Rightarrow> Inl e
                     | Inr w4 \<Rightarrow> renderDailySettings w4)))"

subsection \<open>Actions\<close>

definition addTask :: "string \<Rightarrow> string \<Rightarrow> world \<Rightarrow> world" where
  "addTask text0 today w =
    (if trim text0 = [] then w
     else (let (i, w1) = generateId w;
               (newTask, w2) = alloc [(''id'', JStr i), (''text'', JStr (trim text0)),
                                      (''completed'', JBool False), (''type'', JStr ''extra''),
                                      (''dateAdded'', JStr today)] w1
           in saveState (w2\<lparr>tasks := tasks w2 @ [newTask]\<rparr>)))"

text \<open>\<open>state.tasks.find(t => t.id === id)\<close>: the first task whose \<open>id\<close> is the argument.\<close>

definition findTask :: "val \<Rightarrow> world \<Rightarrow> addr option" where
  "findTask i w = find (\<lambda>t. getProp ''id'' (heap w ! t) = i) (tasks w)"

definition toggleTask :: "val \<Rightarrow> world \<Rightarrow> world" where
  "toggleTask i w =
    (case findTask i w of
       None \<Rightarrow> w
     | Some task \<Rightarrow>
         saveState (w\<lparr>heap := (heap w)[task :=
           setProp ''completed'' (JBool (\<not> truthy (getProp ''completed'' (heap w ! task))))
             (heap w ! task)]\<rparr>))"

text \<open>
  \<open>state.dailyRoutine[index]\<close> is \<open>undefined\<close> unless \<open>0 \<le> index < length\<close>, and assigning
  to a property of \<open>undefined\<close> throws a TypeError before anything is changed.
\<close>

definition updateDailyTask :: "int \<Rightarrow> string \<Rightarrow> world \<Rightarrow> outcome" where
  "updateDailyTask index newText w =
    (if trim newText \<noteq> [] then
       (if 0 \<le> index \<and> index < int (length (dailyRoutine w)) then
          (let t = dailyRoutine w ! nat index
           in Inr (saveState (w\<lparr>heap := (heap w)[t :=
                setProp ''text'' (JStr (trim newText)) (heap w ! t)]\<rparr>)))
        else Inl (TypeError, w))
     else Inr w)"

text \<open>
  \<open>Array.prototype.splice(index, 1)\<close>: a negative start counts from the end, the start
  is clamped to \<open>0 .. length\<close>, and the element there (if any) is removed.
\<close>

definition splice1 :: "int \<Rightarrow> 'a list \<Rightarrow> 'a list" where
  "splice1 index xs =
    (let len = int (length xs);
         start = nat (if index < 0 then max (len + index) 0 else min index len)
     in take start xs @ drop (Suc start) xs)"

definition removeDailyTask :: "int \<Rightarrow> world \<Rightarrow> world" where
  "removeDailyTask index w = saveState (w\<lparr>dailyRoutine := splice1 index (dailyRoutine w)\<rparr>)"

definition addDailyTemplate :: "world \<Rightarrow> world" where
  "addDailyTemplate w =
    (let (i, w1) = generateId w;
         (t, w2) = alloc [(''id'', JStr i), (''text'', JStr []), (''type'', JStr ''daily'')] w1
     in saveState (w2\<lparr>dailyRoutine := dailyRoutine w2 @ [t]\<rparr>))"

subsection \<open>Display settings\<close>

text \<open>
  The click handlers that \<open>setupEventListeners\<close> installs on the time display, the date
  display, the font buttons and the colour buttons. \<open>indexOf\<close> is
  \<open>Array.prototype.indexOf\<close>: the first position of the element, or \<open>-1\<close>. The font and
  colour handlers take what \<open>parseInt(btn.dataset.font)\<close> and \<open>btn.dataset.color\<close> gave.
\<close>

definition clickTime :: "world \<Rightarrow> world" where
  "clickTime w =
    saveState (w\<lparr>settings := (settings w)\<lparr>timeFormat :=
      (if timeFormat (settings w) = ''12h'' then ''24h'' else ''12h'')\<rparr>\<rparr>)"

fun indexOf :: "'a list \<Rightarrow> 'a \<Rightarrow> int" where
  "indexOf [] x = - 1"
| "indexOf (y # ys) x =
    (if y = x then 0 else if indexOf ys x < 0 then - 1 else indexOf ys x + 1)"

definition clickDate :: "world \<Rightarrow> world" where
  "clickDate w =
    (let formats = [''Month'', ''MM/DD'', ''DD/MM''];
         currentIdx = indexOf formats (dateFormat (settings w));
         nextIdx = (currentIdx + 1) mod int (length formats)
     in saveState (w\<lparr>settings := (settings w)\<lparr>dateFormat := formats ! nat nextIdx\<rparr>\<rparr>))"

definition selectFont :: "int \<Rightarrow> world \<Rightarrow> world" where
  "selectFont n w = saveState (w\<lparr>settings := (settings w)\<lparr>font := n\<rparr>\<rparr>)"

definition selectColor :: "string \<Rightarrow> world \<Rightarrow> world" where
  "selectColor c w = saveState (w\<lparr>settings := (settings w)\<lparr>themeColor := c\<rparr>\<rparr>)"

subsection \<open>Events, and the worlds the program reaches\<close>

text \<open>
  After \<open>init\<close> the browser calls one handler per event. \<open>perform a today w\<close> runs the
  handler of event \<open>a\<close> in world \<open>w\<close>, with the render call that ends it (\<open>addTask\<close> returns
  before it for a blank text, \<open>toggleTask\<close> skips it when no task is found); \<open>today\<close> is what
  the handler reads from the clock, if it reads it.
\<close>

datatype action =
  AddTask string
  | ToggleTask val
  | UpdateDailyTask int string
  | RemoveDailyTask int
  | AddDailyTemplate
  | ResetDailyTasks
  | ClickTime
  | ClickDate
  | SelectFont int
  | SelectColor string

fun perform :: "action \<Rightarrow> string \<Rightarrow> world \<Rightarrow> outcome" where
  "perform (AddTask s) today w =
    (if trim s = [] then Inr w else renderTasks (addTask s today w))"
| "perform (ToggleTask i) today w =
    (case findTask i w of None \<Rightarrow> Inr w | Some task \<Rightarrow> renderTasks (toggleTask i w))"
| "perform (UpdateDailyTask index s) today w = updateDailyTask index s w"
| "perform (RemoveDailyTask index) today w = renderDailySettings (removeDailyTask index w)"
| "perform AddDailyTemplate today w = renderDailySettings (addDailyTemplate w)"
| "perform ResetDailyTasks today w = renderTasks (resetDailyTasks today w)"
| "perform ClickTime today w = Inr (clickTime w)"
| "perform ClickDate today w = Inr (clickDate w)"
| "perform (SelectFont n) today w = Inr (selectFont n w)"
| "perform (SelectColor c) today w = Inr (selectColor c w)"

text \<open>The world that an outcome leaves, whether the call returned or threw.\<close>

fun after :: "outcome \<Rightarrow> world" where
  "after (Inl (e, w)) = w"
| "after (Inr w) = w"

text \<open>
  The worlds of a run that starts with the stored item \<open>raw\<close>: what \<open>loadState\<close> makes of the
  initial world, then the two checks of \<open>init\<close> and the event handlers, in any order; a
  handler that throws leaves the page running in the world of the throw.
\<close>

inductive reachable :: "item \<Rightarrow> world \<Rightarrow> bool" where
  loaded: "loadState raw d (initial rnd) = Inr w \<Longrightarrow> reachable raw w"
| midnight: "reachable raw w \<Longrightarrow> reachable raw (checkMidnightReset d w)"
| backfill: "reachable raw w \<Longrightarrow> reachable raw (ensureDailyTasks d w)"
| event: "reachable raw w \<Longrightarrow> reachable raw (after (perform a d w))"

subsection \<open>Well-formed worlds\<close>

text \<open>
  \<open>heap_ok\<close>: every address that the state or \<open>DEFAULT_DAILY_TASKS\<close> holds is allocated.
  \<open>separated\<close>: no task is the same object as a template. \<open>wellformed\<close>: both.
  \<open>routineDaily\<close>: every template has \<open>type: 'daily'\<close>, as the templates that the source
  creates have.
\<close>

definition heap_ok :: "world \<Rightarrow> bool" where
  "heap_ok w =
    (list_all (\<lambda>r. r < length (heap w)) (tasks w) \<and>
     list_all (\<lambda>r. r < length (heap w)) (dailyRoutine w) \<and>
     list_all (\<lambda>r. r < length (heap w)) DEFAULT_DAILY_TASKS)"

definition separated :: "world \<Rightarrow> bool" where
  "separated w =
    list_all (\<lambda>r. r \<notin> set (dailyRoutine w) \<and> r \<notin> set DEFAULT_DAILY_TASKS) (tasks w)"

definition wellformed :: "world \<Rightarrow> bool" where
  "wellformed w = (heap_ok w \<and> separated w)"

definition routineDaily :: "world \<Rightarrow> bool" where
  "routineDaily w =
    list_all (\<lambda>t. getProp ''type'' (heap w ! t) = JStr ''daily'') (dailyRoutine w)"

text \<open>
  \<open>shaped raw\<close>: the templates of the stored object, if it has any, have \<open>type: 'daily'\<close>.
  \<open>defaultsDaily\<close>: so have the objects of \<open>DEFAULT_DAILY_TASKS\<close>.
\<close>

definition shaped :: "item \<Rightarrow> bool" where
  "shaped raw =
    (case raw of
       Parsed sv \<Rightarrow>
         (case s_dailyRoutine sv of
            Given obs \<Rightarrow> list_all (\<lambda>ob. getProp ''type'' ob = JStr ''daily'') obs
          | _ \<Rightarrow> True)
     | _ \<Rightarrow> True)"

definition defaultsDaily :: "world \<Rightarrow> bool" where
  "defaultsDaily w =
    list_all (\<lambda>t. getProp ''type'' (heap w ! t) = JStr ''daily'') DEFAULT_DAILY_TASKS"

text \<open>\<open>typed\<close>: no dangling address, and every template has type \<open>daily\<close>.\<close>

definition typed :: "world \<Rightarrow> bool" where
  "typed w = (heap_ok w \<and> routineDaily w \<and> defaultsDaily w)"

text \<open>
  \<open>printable v\<close>: \<open>escapeHtml(v)\<close> returns. \<open>worded raw\<close>: every text of the stored object is
  printable. \<open>legible\<close>: no dangling address, and every text that rendering reads is
  printable.
\<close>

definition printable :: "val \<Rightarrow> bool" where
  "printable v = (case v of JBool b \<Rightarrow> \<not> b | _ \<Rightarrow> True)"

definition worded :: "item \<Rightarrow> bool" where
  "worded raw =
    (case raw of
       Parsed sv \<Rightarrow>
         (case s_tasks sv of
            Some obs \<Rightarrow> list_all (\<lambda>ob. printable (getProp ''text'' ob)) obs
          | None \<Rightarrow> True) \<and>
         (case s_dailyRoutine sv of
            Given obs \<Rightarrow> list_all (\<lambda>ob. printable (getProp ''text'' ob)) obs
          | _ \<Rightarrow> True)
     | _ \<Rightarrow> True)"

definition legible :: "world \<Rightarrow> bool" where
  "legible w =
    (heap_ok w \<and>
     list_all (\<lambda>r. printable (getProp ''text'' (heap w ! r)))
       (tasks w @ dailyRoutine w @ DEFAULT_DAILY_TASKS))"

subsection \<open>Example worlds\<close>

text \<open>
  A sequence of random strings with pairwise different identifiers; the scenario of the
  specification (one template, one completed extra task, last opened on Monday); a
  world with the default routine, one extra task whose identifier came from the first
  draw, and no daily task; the world after a first run on Monday; and a stored object
  from before the routine existed, with a task and a date but no \<open>dailyRoutine\<close> key.
\<close>

definition example_random :: "nat \<Rightarrow> string" where
  "example_random k = ''0.'' @ replicate (Suc k) (CHR ''a'')"

definition monday_world :: world where
  "monday_world =
    \<lparr>tasks = [4], dailyRoutine = [3],
     settings = \<lparr>font = 1, timeFormat = ''12h'', dateFormat = ''Month'', themeColor = ''green''\<rparr>,
     lastOpenDate = JStr ''Mon Jan 01 2024'',
     heap = DEFAULT_DAILY_TASKS_objects @
       [[(''id'', JStr ''r1''), (''text'', JStr ''Stretch''), (''type'', JStr ''daily'')],
        [(''id'', JStr ''t1''), (''text'', JStr ''Buy milk''), (''completed'', JBool True),
         (''type'', JStr ''extra''), (''dateAdded'', JStr ''Mon Jan 01 2024'')]],
     Math_random = example_random, draws = 0, written = []\<rparr>"

definition extras_world :: world where
  "extras_world =
    \<lparr>tasks = [3], dailyRoutine = [0, 1, 2],
     settings = \<lparr>font = 1, timeFormat = ''12h'', dateFormat = ''Month'', themeColor = ''green''\<rparr>,
     lastOpenDate = JStr ''Tue Jan 02 2024'',
     heap = DEFAULT_DAILY_TASKS_objects @
       [[(''id'', JStr ''_a''), (''text'', JStr ''Buy milk''), (''completed'', JBool True),
         (''type'', JStr ''extra''), (''dateAdded'', JStr ''Tue Jan 02 2024'')]],
     Math_random = example_random, draws = 1, written = []\<rparr>"

definition first_run_world :: world where
  "first_run_world =
    after (init NoItem ''Mon Jan 01 2024'' ''Mon Jan 01 2024'' ''Mon Jan 01 2024''
      (initial example_random))"

definition legacy_blob :: saved where
  "legacy_blob =
    \<lparr>s_tasks = Some [[(''id'', JStr ''t1''), (''text'', JStr ''Buy milk''), (''completed'', JBool False),
         (''type'', JStr ''extra''), (''dateAdded'', JStr ''Mon Jan 01 2024'')]],
     s_dailyRoutine = Missing, s_settings = None,
     s_lastOpenDate = Some (JStr ''Mon Jan 01 2024'')\<rparr>"

section \<open>Properties\<close>

subsection \<open>Objects and instantiation\<close>

lemmas run_defs =
  reconcile_def checkMidnightReset_def performDailyReset_def ensureDailyTasks_def
  hasDailyTasks_def instantiate_def generateId_def alloc_def saveState_def snapshot_def
  taskFrom_def idOfDraw_def getProp_def heap_ok_def separated_def routineDaily_def
  DEFAULT_DAILY_TASKS_objects_def DEFAULT_DAILY_TASKS_def Let_def

lemmas load_defs =
  init_def loadState_def mergeSaved_def initial_def first_run_world_def renderTasks_def
  renderDailySettings_def escapeHtml_def

lemma after_render: "after (renderTasks w) = w" "after (renderDailySettings w) = w"
  by (simp_all add: renderTasks_def renderDailySettings_def)

lemma after_perform:
  "after (perform (AddTask s) d w) = addTask s d w"
  "after (perform (ToggleTask i) d w) = toggleTask i w"
  "after (perform (UpdateDailyTask index s) d w) = after (updateDailyTask index s w)"
  "after (perform (RemoveDailyTask index) d w) = removeDailyTask index w"
  "after (perform AddDailyTemplate d w) = addDailyTemplate w"
  "after (perform ResetDailyTasks d w) = resetDailyTasks d w"
  "after (perform ClickTime d w) = clickTime w"
  "after (perform ClickDate d w) = clickDate w"
  "after (perform (SelectFont n) d w) = selectFont n w"
  "after (perform (SelectColor c) d w) = selectColor c w"
  by (simp_all add: after_render addTask_def toggleTask_def split: option.splits)

lemma after_init:
  "after (init raw d1 d2 d3 w) =
    (case loadState raw d1 w of
       Inl (e, w0) \<Rightarrow> w0
     | Inr w1 \<Rightarrow>
        if lastOpenDate w1 \<noteq> JStr d2 \<and> isl (renderTasks (checkMidnightReset d2 w1))
        then checkMidnightReset d2 w1 else reconcile d2 d3 w1)"
  by (simp add: init_def reconcile_def renderTasks_def renderDailySettings_def Let_def
      split: sum.splits prod.splits)

lemma getProp_setProp: "getProp k (setProp k' v ob) = (if k = k' then v else getProp k ob)"
  by (induction ob) (auto simp: getProp_def)

lemma instantiate_eq:
  "instantiate d t w =
    (length (heap w),
     w\<lparr>heap := heap w @ [taskFrom (heap w ! t) (idOfDraw (Math_random w (draws w))) d],
       draws := Suc (draws w)\<rparr>)"
  by (simp add: instantiate_def generateId_def alloc_def)

lemma instantiateAll_eq:
  "list_all (\<lambda>t. t < length (heap w)) ts \<Longrightarrow>
   instantiateAll d ts w =
    ([length (heap w) ..< length (heap w) + length ts],
     w\<lparr>heap := heap w @ newTasks d ts w, draws := draws w + length ts\<rparr>)"
proof (induction ts arbitrary: w)
  case Nil
  then show ?case by (simp add: newTasks_def)
next
  case (Cons t ts)
  let ?w1 = "w\<lparr>heap := heap w @ [taskFrom (heap w ! t) (idOfDraw (Math_random w (draws w))) d],
       draws := Suc (draws w)\<rparr>"
  have ok: "list_all (\<lambda>t. t < length (heap ?w1)) ts"
    using Cons.prems by (auto simp: list_all_iff)
  have same: "newTasks d ts ?w1 = map (\<lambda>(t, k). taskFrom (heap w ! t) (idOfDraw (Math_random w k)) d)
      (zip ts [Suc (draws w) ..< Suc (draws w) + length ts])"
    using Cons.prems unfolding newTasks_def
    by (auto simp: list_all_iff nth_append dest!: set_zip_leftD)
  have upt1: "[length (heap w) ..< length (heap w) + length (t # ts)] =
      length (heap w) # [Suc (length (heap w)) ..< Suc (length (heap w)) + length ts]"
    by (simp add: upt_conv_Cons del: upt_Suc)
  have upt2: "[draws w ..< draws w + length (t # ts)] =
      draws w # [Suc (draws w) ..< Suc (draws w) + length ts]"
    by (simp add: upt_conv_Cons del: upt_Suc)
  have new: "newTasks d (t # ts) w =
      taskFrom (heap w ! t) (idOfDraw (Math_random w (draws w))) d # newTasks d ts ?w1"
    unfolding same unfolding newTasks_def upt2 by simp
  show ?case
    unfolding upt1 new using Cons.IH [OF ok]
    by (simp add: instantiate_eq del: upt_Suc)
qed

lemma length_newTasks: "length (newTasks d ts w) = length ts"
  by (simp add: newTasks_def)

lemma newTasks_nth:
  "k < length ts \<Longrightarrow>
   newTasks d ts w ! k = taskFrom (heap w ! (ts ! k)) (idOfDraw (Math_random w (draws w + k))) d"
  by (simp add: newTasks_def)

lemma taskFrom_props:
  "getProp ''id'' (taskFrom t i d) = JStr i"
  "getProp ''completed'' (taskFrom t i d) = JBool False"
  "getProp ''dateAdded'' (taskFrom t i d) = JStr d"
  "getProp ''type'' (taskFrom t i d) = getProp ''type'' t"
  "getProp ''text'' (taskFrom t i d) = getProp ''text'' t"
  by (simp_all add: taskFrom_def getProp_setProp)

lemma map_nth_appended:
  "map (\<lambda>r. (xs @ ys) ! r) [length xs ..< length xs + length ys] = ys"
  by (rule nth_equalityI) (simp_all add: nth_append)

lemma ids_newTasks:
  "map (getProp ''id'') (newTasks d ts w) =
   map (\<lambda>k. JStr (idOfDraw (Math_random w k))) [draws w ..< draws w + length ts]"
  by (rule nth_equalityI) (simp_all add: newTasks_def taskFrom_props)

lemma idOfDraw_eq: "idOfDraw r = ''_'' @ take 9 (drop 2 r)"
  by (simp add: idOfDraw_def)

lemma distinct_ids_of_draws:
  assumes "distinct (map (\<lambda>k. take 9 (drop 2 (rnd k))) ks)"
  shows "distinct (map (\<lambda>k. JStr (idOfDraw (rnd k))) ks)"
proof -
  have "distinct (map (\<lambda>s. JStr (''_'' @ s)) (map (\<lambda>k. take 9 (drop 2 (rnd k))) ks))"
    using assms by (subst distinct_map) (auto intro: inj_onI)
  then show ?thesis
    by (simp add: idOfDraw_def comp_def)
qed

lemma heap_ok_routine: "heap_ok w \<Longrightarrow> list_all (\<lambda>t. t < length (heap w)) (dailyRoutine w)"
  by (simp add: heap_ok_def)

lemma allocAll_eq:
  "allocAll obs w = ([length (heap w) ..< length (heap w) + length obs], w\<lparr>heap := heap w @ obs\<rparr>)"
proof (induction obs arbitrary: w)
  case Nil
  then show ?case by simp
next
  case (Cons ob obs)
  have upt1: "[length (heap w) ..< length (heap w) + length (ob # obs)] =
      length (heap w) # [Suc (length (heap w)) ..< Suc (length (heap w)) + length obs]"
    by (simp add: upt_conv_Cons del: upt_Suc)
  show ?case
    unfolding upt1 by (simp add: alloc_def Cons.IH del: upt_Suc)
qed

lemma instantiateAll_frame:
  "tasks (snd (instantiateAll d ts w)) = tasks w \<and>
   dailyRoutine (snd (instantiateAll d ts w)) = dailyRoutine w \<and>
   settings (snd (instantiateAll d ts w)) = settings w \<and>
   lastOpenDate (snd (instantiateAll d ts w)) = lastOpenDate w \<and>
   written (snd (instantiateAll d ts w)) = written w"
  by (induction ts arbitrary: w)
     (simp_all add: instantiate_eq case_prod_beta)

subsection \<open>Reset and backfill in closed form\<close>

lemma performDailyReset_eq:
  assumes "heap_ok w"
  shows "performDailyReset d w =
    saveState (w\<lparr>heap := heap w @ newTasks d (dailyRoutine w) w,
      draws := draws w + length (dailyRoutine w),
      tasks := [length (heap w) ..< length (heap w) + length (dailyRoutine w)],
      lastOpenDate := JStr d\<rparr>)"
  by (simp add: performDailyReset_def instantiateAll_eq [OF heap_ok_routine [OF assms]])

lemma backfill_eq:
  assumes "heap_ok w" "\<not> hasDailyTasks w" "dailyRoutine w \<noteq> []"
  shows "ensureDailyTasks d w =
    saveState (w\<lparr>heap := heap w @ newTasks d (dailyRoutine w) w,
      draws := draws w + length (dailyRoutine w),
      tasks := [length (heap w) ..< length (heap w) + length (dailyRoutine w)] @ tasks w\<rparr>)"
  using assms(2,3)
  by (simp add: ensureDailyTasks_def instantiateAll_eq [OF heap_ok_routine [OF assms(1)]])

lemma hasDailyTasks_fresh:
  assumes "routineDaily w" "dailyRoutine w \<noteq> []"
    and h: "heap w' = heap w @ newTasks d (dailyRoutine w) w"
    and t: "tasks w' = [length (heap w) ..< length (heap w) + length (dailyRoutine w)] @ rest"
  shows "hasDailyTasks w'"
proof -
  obtain t ts where r: "dailyRoutine w = t # ts"
    using assms(2) by (cases "dailyRoutine w") auto
  have ty: "getProp ''type'' (heap w ! t) = JStr ''daily''"
    using assms(1) by (simp add: routineDaily_def r)
  have first: "length (heap w) \<in> set (tasks w')"
    unfolding t using r by simp
  have "heap w' ! length (heap w) = newTasks d (dailyRoutine w) w ! 0"
    unfolding h by (simp add: nth_append)
  also have "\<dots> = taskFrom (heap w ! t) (idOfDraw (Math_random w (draws w + 0))) d"
    using newTasks_nth [of 0 "dailyRoutine w" d w] r by simp
  finally have "getProp ''type'' (heap w' ! length (heap w)) = JStr ''daily''"
    by (simp add: taskFrom_props ty)
  with first show ?thesis
    unfolding hasDailyTasks_def list_ex_iff by blast
qed

lemma ensure_after_reset:
  assumes "heap_ok w" "routineDaily w"
  shows "ensureDailyTasks d' (performDailyReset d w) = performDailyReset d w"
proof (cases "dailyRoutine w = []")
  case True
  then show ?thesis
    by (simp add: ensureDailyTasks_def performDailyReset_eq [OF assms(1)] saveState_def)
next
  case False
  have "hasDailyTasks (performDailyReset d w)"
    by (rule hasDailyTasks_fresh [OF assms(2) False, where rest = "[]" and d = d])
       (simp_all add: performDailyReset_eq [OF assms(1)] saveState_def)
  then show ?thesis by (simp add: ensureDailyTasks_def)
qed

lemma reconcile_reset:
  assumes "heap_ok w" "routineDaily w" "lastOpenDate w \<noteq> JStr today"
  shows "reconcile today d3 w = performDailyReset today w"
  using assms by (simp add: reconcile_def checkMidnightReset_def ensure_after_reset)

lemma dailyRoutine_performDailyReset: "dailyRoutine (performDailyReset d w) = dailyRoutine w"
  by (simp add: performDailyReset_def saveState_def case_prod_beta instantiateAll_frame)

lemma dailyRoutine_checkMidnightReset: "dailyRoutine (checkMidnightReset d w) = dailyRoutine w"
  by (simp add: checkMidnightReset_def dailyRoutine_performDailyReset)

lemma dailyRoutine_ensureDailyTasks: "dailyRoutine (ensureDailyTasks d w) = dailyRoutine w"
  by (simp add: ensureDailyTasks_def saveState_def case_prod_beta instantiateAll_frame)

lemma dailyRoutine_reconcile: "dailyRoutine (reconcile d2 d3 w) = dailyRoutine w"
  by (simp add: reconcile_def dailyRoutine_ensureDailyTasks dailyRoutine_checkMidnightReset)

lemma loadState_first_run:
  assumes "raw = NoItem \<or> raw = EmptyText"
  shows "\<exists>w'. loadState raw d w = Inr w' \<and> dailyRoutine w' = DEFAULT_DAILY_TASKS \<and>
      lastOpenDate w' = JStr d \<and> written w' = written w @ [snapshot w']"
  using assms
  by (auto simp: loadState_def saveState_def snapshot_def Let_def case_prod_beta
      instantiateAll_frame)

lemma dailyRoutine_init_first_run:
  assumes "raw = NoItem \<or> raw = EmptyText"
  shows "dailyRoutine (after (init raw d1 d2 d3 w)) = DEFAULT_DAILY_TASKS"
proof -
  obtain w1 where l: "loadState raw d1 w = Inr w1" "dailyRoutine w1 = DEFAULT_DAILY_TASKS"
    using loadState_first_run [OF assms] by blast
  then show ?thesis
    by (simp add: after_init dailyRoutine_reconcile dailyRoutine_checkMidnightReset)
qed

lemma settings_handlers_frame:
  "tasks (clickTime w) = tasks w" "dailyRoutine (clickTime w) = dailyRoutine w"
  "heap (clickTime w) = heap w"
  "tasks (clickDate w) = tasks w" "dailyRoutine (clickDate w) = dailyRoutine w"
  "heap (clickDate w) = heap w"
  "tasks (selectFont n w) = tasks w" "dailyRoutine (selectFont n w) = dailyRoutine w"
  "heap (selectFont n w) = heap w"
  "tasks (selectColor c w) = tasks w" "dailyRoutine (selectColor c w) = dailyRoutine w"
  "heap (selectColor c w) = heap w"
  by (simp_all add: clickTime_def clickDate_def selectFont_def selectColor_def saveState_def
      Let_def del: indexOf.simps)

lemma dailyRoutine_grows:
  assumes "\<forall>i. a \<noteq> RemoveDailyTask i"
  shows "length (dailyRoutine w) \<le> length (dailyRoutine (after (perform a d w)))"
  using assms
  by (cases a)
     (simp_all add: addTask_def toggleTask_def updateDailyTask_def addDailyTemplate_def
        resetDailyTasks_def dailyRoutine_performDailyReset settings_handlers_frame
        generateId_def alloc_def saveState_def Let_def after_perform
        del: perform.simps split: option.splits)

subsection \<open>Every reachable world is well-formed\<close>

lemma wellformed_iff:
  "wellformed w \<longleftrightarrow>
    (\<forall>r\<in>set (tasks w). r < length (heap w) \<and> r \<notin> set (dailyRoutine w) \<and> r \<notin> set DEFAULT_DAILY_TASKS) \<and>
    (\<forall>r\<in>set (dailyRoutine w). r < length (heap w)) \<and>
    (\<forall>r\<in>set DEFAULT_DAILY_TASKS. r < length (heap w))"
  by (auto simp: wellformed_def heap_ok_def separated_def list_all_iff)

lemma wf_initial: "wellformed (initial rnd)"
  by (simp add: wellformed_iff initial_def DEFAULT_DAILY_TASKS_def DEFAULT_DAILY_TASKS_objects_def)

lemma wf_saveState: "wellformed (saveState w) = wellformed w"
  by (simp add: wellformed_iff saveState_def)

lemma wf_performDailyReset: "wellformed w \<Longrightarrow> wellformed (performDailyReset d w)"
proof -
  assume i: "wellformed w"
  then have ok: "heap_ok w" by (simp add: wellformed_def)
  show ?thesis
    unfolding performDailyReset_eq [OF ok]
    using i by (auto simp: wellformed_iff saveState_def length_newTasks)
qed

lemma wf_checkMidnightReset: "wellformed w \<Longrightarrow> wellformed (checkMidnightReset d w)"
  by (simp add: checkMidnightReset_def wf_performDailyReset)

lemma wf_ensureDailyTasks: "wellformed w \<Longrightarrow> wellformed (ensureDailyTasks d w)"
proof (cases "\<not> hasDailyTasks w \<and> dailyRoutine w \<noteq> []")
  case True
  assume i: "wellformed w"
  then have ok: "heap_ok w" by (simp add: wellformed_def)
  show ?thesis
    using True i unfolding backfill_eq [OF ok conjunct1 [OF True] conjunct2 [OF True]]
    by (auto simp: wellformed_iff saveState_def length_newTasks)
next
  case False
  assume "wellformed w"
  with False show ?thesis by (auto simp: ensureDailyTasks_def)
qed

lemma wf_addTask: "wellformed w \<Longrightarrow> wellformed (addTask s d w)"
  by (auto simp: addTask_def generateId_def alloc_def Let_def saveState_def wellformed_iff)

lemma wf_toggleTask: "wellformed w \<Longrightarrow> wellformed (toggleTask i w)"
  by (auto simp: toggleTask_def saveState_def wellformed_iff split: option.splits)

lemma wf_updateDailyTask: "wellformed w \<Longrightarrow> wellformed (after (updateDailyTask index s w))"
  by (auto simp: updateDailyTask_def Let_def saveState_def wellformed_iff)

lemma set_splice1: "set (splice1 index xs) \<subseteq> set xs"
  by (auto simp: splice1_def Let_def dest: in_set_takeD in_set_dropD)

lemma wf_removeDailyTask: "wellformed w \<Longrightarrow> wellformed (removeDailyTask index w)"
  using set_splice1 [of index "dailyRoutine w"]
  by (auto simp: removeDailyTask_def saveState_def wellformed_iff)

lemma wf_addDailyTemplate: "wellformed w \<Longrightarrow> wellformed (addDailyTemplate w)"
  by (auto simp: addDailyTemplate_def generateId_def alloc_def Let_def saveState_def wellformed_iff)

lemma wf_settings:
  "wellformed (clickTime w) = wellformed w" "wellformed (clickDate w) = wellformed w"
  "wellformed (selectFont n w) = wellformed w" "wellformed (selectColor c w) = wellformed w"
  by (simp_all add: settings_handlers_frame wellformed_iff)

lemma wf_perform: "wellformed w \<Longrightarrow> wellformed (after (perform a d w))"
  by (cases a)
     (simp_all add: wf_addTask wf_toggleTask wf_updateDailyTask wf_removeDailyTask
        wf_addDailyTemplate wf_settings resetDailyTasks_def wf_performDailyReset
        after_perform del: perform.simps)

lemma wf_mergeSaved: "wellformed w \<Longrightarrow> wellformed (mergeSaved sv w)"
  unfolding mergeSaved_def Let_def
  by (auto simp: allocAll_eq wellformed_iff split: option.splits field.splits)

lemma wf_loadState: "wellformed w \<Longrightarrow> wellformed (after (loadState raw d w))"
proof (cases raw)
  case (Parsed sv)
  assume "wellformed w"
  then show ?thesis by (simp add: loadState_def Parsed wf_mergeSaved)
next
  case Malformed
  assume "wellformed w"
  then show ?thesis by (simp add: loadState_def Malformed)
next
  case NoItem
  assume i: "wellformed w"
  have "list_all (\<lambda>t. t < length (heap w)) DEFAULT_DAILY_TASKS"
    using i by (simp add: wellformed_def heap_ok_def)
  then show ?thesis
    using i by (auto simp: loadState_def NoItem instantiateAll_eq saveState_def length_newTasks wellformed_iff Let_def)
next
  case EmptyText
  assume i: "wellformed w"
  have "list_all (\<lambda>t. t < length (heap w)) DEFAULT_DAILY_TASKS"
    using i by (simp add: wellformed_def heap_ok_def)
  then show ?thesis
    using i by (auto simp: loadState_def EmptyText instantiateAll_eq saveState_def length_newTasks wellformed_iff Let_def)
qed

lemma reachable_wf: "reachable raw w \<Longrightarrow> wellformed w"
proof (induction rule: reachable.induct)
  case (loaded raw d rnd w)
  then show ?case
    using wf_loadState [OF wf_initial, of raw d rnd] by simp
next
  case (midnight raw w d)
  then show ?case by (simp add: wf_checkMidnightReset)
next
  case (backfill raw w d)
  then show ?case by (simp add: wf_ensureDailyTasks)
next
  case (event raw w a d)
  then show ?case by (simp add: wf_perform)
qed

subsection \<open>Templates keep their type\<close>

text \<open>
  No function of the source writes the \<open>type\<close> of an existing object, and every template
  that the source creates has type \<open>daily\<close>. So when the stored item is \<open>shaped\<close>, every
  reachable world satisfies \<open>heap_ok\<close> and \<open>routineDaily\<close>, the two conditions under which the
  reset and the backfill are described below.
\<close>

lemma typed_iff:
  "typed w \<longleftrightarrow>
    (\<forall>r\<in>set (tasks w). r < length (heap w)) \<and>
    (\<forall>r\<in>set (dailyRoutine w). r < length (heap w) \<and> getProp ''type'' (heap w ! r) = JStr ''daily'') \<and>
    (\<forall>r\<in>set DEFAULT_DAILY_TASKS. r < length (heap w) \<and> getProp ''type'' (heap w ! r) = JStr ''daily'')"
  by (auto simp: typed_def heap_ok_def routineDaily_def defaultsDaily_def list_all_iff)

lemma typed_initial: "typed (initial rnd)"
  by (simp add: typed_iff initial_def DEFAULT_DAILY_TASKS_def DEFAULT_DAILY_TASKS_objects_def
      getProp_def)

lemma typed_performDailyReset: "typed w \<Longrightarrow> typed (performDailyReset d w)"
proof -
  assume i: "typed w"
  then have ok: "heap_ok w" by (simp add: typed_def)
  show ?thesis
    unfolding performDailyReset_eq [OF ok]
    using i by (auto simp: typed_iff saveState_def length_newTasks nth_append)
qed

lemma typed_checkMidnightReset: "typed w \<Longrightarrow> typed (checkMidnightReset d w)"
  by (simp add: checkMidnightReset_def typed_performDailyReset)

lemma typed_ensureDailyTasks: "typed w \<Longrightarrow> typed (ensureDailyTasks d w)"
proof (cases "\<not> hasDailyTasks w \<and> dailyRoutine w \<noteq> []")
  case True
  assume i: "typed w"
  then have ok: "heap_ok w" by (simp add: typed_def)
  show ?thesis
    using True i unfolding backfill_eq [OF ok conjunct1 [OF True] conjunct2 [OF True]]
    by (auto simp: typed_iff saveState_def length_newTasks nth_append)
next
  case False
  assume "typed w"
  with False show ?thesis by (auto simp: ensureDailyTasks_def)
qed

lemma type_after_update:
  "k \<noteq> ''type'' \<Longrightarrow>
   getProp ''type'' (hp[t := setProp k v (hp ! t)] ! r) = getProp ''type'' (hp ! r)"
  by (cases "r = t"; cases "t < length hp")
     (simp_all add: getProp_setProp list_update_beyond linorder_not_less)

lemma typed_addTask: "typed w \<Longrightarrow> typed (addTask s d w)"
  by (auto simp: addTask_def generateId_def alloc_def Let_def saveState_def typed_iff nth_append)

lemma typed_toggleTask: "typed w \<Longrightarrow> typed (toggleTask i w)"
  by (auto simp: toggleTask_def saveState_def typed_iff type_after_update split: option.splits)

lemma typed_updateDailyTask: "typed w \<Longrightarrow> typed (after (updateDailyTask index s w))"
  by (auto simp: updateDailyTask_def Let_def saveState_def typed_iff type_after_update)

lemma typed_removeDailyTask: "typed w \<Longrightarrow> typed (removeDailyTask index w)"
  using set_splice1 [of index "dailyRoutine w"]
  by (auto simp: removeDailyTask_def saveState_def typed_iff)

lemma typed_addDailyTemplate: "typed w \<Longrightarrow> typed (addDailyTemplate w)"
  by (auto simp: addDailyTemplate_def generateId_def alloc_def Let_def saveState_def typed_iff
      nth_append getProp_def)

lemma typed_settings:
  "typed (clickTime w) = typed w" "typed (clickDate w) = typed w"
  "typed (selectFont n w) = typed w" "typed (selectColor c w) = typed w"
  by (simp_all add: settings_handlers_frame typed_iff)

lemma typed_perform: "typed w \<Longrightarrow> typed (after (perform a d w))"
  by (cases a)
     (simp_all add: typed_addTask typed_toggleTask typed_updateDailyTask typed_removeDailyTask
        typed_addDailyTemplate typed_settings resetDailyTasks_def typed_performDailyReset
        after_perform del: perform.simps)

lemma typed_loadState:
  assumes "shaped raw" and "typed w"
  shows "typed (after (loadState raw d w))"
proof (cases raw)
  case (Parsed sv)
  have given: "\<forall>ob\<in>set obs. getProp ''type'' ob = JStr ''daily''" if "s_dailyRoutine sv = Given obs" for obs
    using assms(1) that by (simp add: shaped_def Parsed list_all_iff)
  show ?thesis
    using assms(2) given
    by (auto simp: loadState_def Parsed mergeSaved_def Let_def allocAll_eq typed_iff nth_append
        split: option.splits field.splits)
next
  case Malformed
  then show ?thesis using assms(2) by (simp add: loadState_def)
next
  case NoItem
  have "list_all (\<lambda>t. t < length (heap w)) DEFAULT_DAILY_TASKS"
    using assms(2) by (simp add: typed_def heap_ok_def)
  then show ?thesis
    using assms(2)
    by (auto simp: loadState_def NoItem instantiateAll_eq saveState_def length_newTasks typed_iff
        Let_def nth_append)
next
  case EmptyText
  have "list_all (\<lambda>t. t < length (heap w)) DEFAULT_DAILY_TASKS"
    using assms(2) by (simp add: typed_def heap_ok_def)
  then show ?thesis
    using assms(2)
    by (auto simp: loadState_def EmptyText instantiateAll_eq saveState_def length_newTasks typed_iff
        Let_def nth_append)
qed

lemma reachable_typed: "reachable raw w \<Longrightarrow> shaped raw \<Longrightarrow> typed w"
proof (induction rule: reachable.induct)
  case (loaded raw d rnd w)
  then show ?case
    using typed_loadState [OF _ typed_initial, of raw d rnd] by simp
next
  case (midnight raw w d)
  then show ?case by (simp add: typed_checkMidnightReset)
next
  case (backfill raw w d)
  then show ?case by (simp add: typed_ensureDailyTasks)
next
  case (event raw w a d)
  then show ?case by (simp add: typed_perform)
qed

lemma reachable_hypotheses:
  "reachable raw w \<Longrightarrow> shaped raw \<Longrightarrow> heap_ok w \<and> routineDaily w"
  using reachable_typed by (simp add: typed_def)

subsection \<open>Rendering returns\<close>

text \<open>
  No function of the source gives an object a text that \<open>escapeHtml\<close> rejects: \<open>addTask\<close> and
  \<open>updateDailyTask\<close> store a trimmed string, \<open>addDailyTemplate\<close> the empty string, and a task
  made from a template has the template's text. So when every text of the stored item
  is printable, both render functions return in every reachable world, and the render
  calls that the state functions leave out never throw there.
\<close>

lemma escapeHtml_printable: "isl (escapeHtml v) \<longleftrightarrow> \<not> printable v"
  by (cases v) (simp_all add: escapeHtml_def printable_def)

lemma legible_iff:
  "legible w \<longleftrightarrow>
    (\<forall>r\<in>set (tasks w). r < length (heap w) \<and> printable (getProp ''text'' (heap w ! r))) \<and>
    (\<forall>r\<in>set (dailyRoutine w). r < length (heap w) \<and> printable (getProp ''text'' (heap w ! r))) \<and>
    (\<forall>r\<in>set DEFAULT_DAILY_TASKS. r < length (heap w) \<and> printable (getProp ''text'' (heap w ! r)))"
  by (auto simp: legible_def heap_ok_def list_all_iff)

lemma legible_renders: "legible w \<Longrightarrow> renderTasks w = Inr w \<and> renderDailySettings w = Inr w"
  by (auto simp: renderTasks_def renderDailySettings_def legible_iff list_ex_iff
      escapeHtml_printable)

lemma legible_initial: "legible (initial rnd)"
  by (simp add: legible_iff initial_def DEFAULT_DAILY_TASKS_def DEFAULT_DAILY_TASKS_objects_def
      getProp_def printable_def)

lemma legible_performDailyReset: "legible w \<Longrightarrow> legible (performDailyReset d w)"
proof -
  assume i: "legible w"
  then have ok: "heap_ok w" by (simp add: legible_def)
  show ?thesis
    unfolding performDailyReset_eq [OF ok]
    using i
    by (auto simp: legible_iff saveState_def length_newTasks nth_append newTasks_nth
        taskFrom_props nth_mem)
qed

lemma legible_checkMidnightReset: "legible w \<Longrightarrow> legible (checkMidnightReset d w)"
  by (simp add: checkMidnightReset_def legible_performDailyReset)

lemma legible_ensureDailyTasks: "legible w \<Longrightarrow> legible (ensureDailyTasks d w)"
proof (cases "\<not> hasDailyTasks w \<and> dailyRoutine w \<noteq> []")
  case True
  assume i: "legible w"
  then have ok: "heap_ok w" by (simp add: legible_def)
  show ?thesis
    using True i unfolding backfill_eq [OF ok conjunct1 [OF True] conjunct2 [OF True]]
    by (auto simp: legible_iff saveState_def length_newTasks nth_append newTasks_nth
        taskFrom_props nth_mem)
next
  case False
  assume "legible w"
  with False show ?thesis by (auto simp: ensureDailyTasks_def)
qed

lemma text_after_update:
  "k \<noteq> ''text'' \<Longrightarrow>
   getProp ''text'' (hp[t := setProp k v (hp ! t)] ! r) = getProp ''text'' (hp ! r)"
  by (cases "r = t"; cases "t < length hp")
     (simp_all add: getProp_setProp list_update_beyond linorder_not_less)

lemma text_after_edit:
  "printable (getProp ''text'' (hp ! r)) \<Longrightarrow>
   printable (getProp ''text'' (hp[t := setProp ''text'' (JStr s) (hp ! t)] ! r))"
  by (cases "r = t"; cases "t < length hp")
     (simp_all add: getProp_setProp list_update_beyond linorder_not_less printable_def)

lemma legible_addTask: "legible w \<Longrightarrow> legible (addTask s d w)"
  by (auto simp: addTask_def generateId_def alloc_def Let_def saveState_def legible_iff nth_append
      getProp_def printable_def)

lemma legible_toggleTask: "legible w \<Longrightarrow> legible (toggleTask i w)"
  by (auto simp: toggleTask_def saveState_def legible_iff text_after_update split: option.splits)

lemma legible_updateDailyTask: "legible w \<Longrightarrow> legible (after (updateDailyTask index s w))"
  by (auto simp: updateDailyTask_def Let_def saveState_def legible_iff text_after_edit)

lemma legible_removeDailyTask: "legible w \<Longrightarrow> legible (removeDailyTask index w)"
  using set_splice1 [of index "dailyRoutine w"]
  by (auto simp: removeDailyTask_def saveState_def legible_iff)

lemma legible_addDailyTemplate: "legible w \<Longrightarrow> legible (addDailyTemplate w)"
  by (auto simp: addDailyTemplate_def generateId_def alloc_def Let_def saveState_def legible_iff
      nth_append getProp_def printable_def)

lemma legible_settings:
  "legible (clickTime w) = legible w" "legible (clickDate w) = legible w"
  "legible (selectFont n w) = legible w" "legible (selectColor c w) = legible w"
  by (simp_all add: settings_handlers_frame legible_iff)

lemma legible_perform: "legible w \<Longrightarrow> legible (after (perform a d w))"
  by (cases a)
     (simp_all add: legible_addTask legible_toggleTask legible_updateDailyTask
        legible_removeDailyTask legible_addDailyTemplate legible_settings resetDailyTasks_def
        legible_performDailyReset after_perform del: perform.simps)

lemma legible_loadState:
  assumes "worded raw" and "legible w"
  shows "legible (after (loadState raw d w))"
proof (cases raw)
  case (Parsed sv)
  have t: "\<forall>ob\<in>set obs. printable (getProp ''text'' ob)" if "s_tasks sv = Some obs" for obs
    using assms(1) that by (simp add: worded_def Parsed list_all_iff)
  have r: "\<forall>ob\<in>set obs. printable (getProp ''text'' ob)" if "s_dailyRoutine sv = Given obs" for obs
    using assms(1) that by (simp add: worded_def Parsed list_all_iff)
  show ?thesis
    using assms(2) t r
    by (auto simp: loadState_def Parsed mergeSaved_def Let_def allocAll_eq legible_iff nth_append
        split: option.splits field.splits)
next
  case Malformed
  then show ?thesis using assms(2) by (simp add: loadState_def)
next
  case NoItem
  have "list_all (\<lambda>t. t < length (heap w)) DEFAULT_DAILY_TASKS"
    using assms(2) by (simp add: legible_def heap_ok_def)
  then show ?thesis
    using assms(2)
    by (auto simp: loadState_def NoItem instantiateAll_eq saveState_def length_newTasks legible_iff
        Let_def nth_append newTasks_nth taskFrom_props nth_mem)
next
  case EmptyText
  have "list_all (\<lambda>t. t < length (heap w)) DEFAULT_DAILY_TASKS"
    using assms(2) by (simp add: legible_def heap_ok_def)
  then show ?thesis
    using assms(2)
    by (auto simp: loadState_def EmptyText instantiateAll_eq saveState_def length_newTasks
        legible_iff Let_def nth_append newTasks_nth taskFrom_props nth_mem)
qed

lemma reachable_legible: "reachable raw w \<Longrightarrow> worded raw \<Longrightarrow> legible w"
proof (induction rule: reachable.induct)
  case (loaded raw d rnd w)
  then show ?case
    using legible_loadState [OF _ legible_initial, of raw d rnd] by simp
next
  case (midnight raw w d)
  then show ?case by (simp add: legible_checkMidnightReset)
next
  case (backfill raw w d)
  then show ?case by (simp add: legible_ensureDailyTasks)
next
  case (event raw w a d)
  then show ?case by (simp add: legible_perform)
qed

lemma rendering_returns:
  "reachable raw w \<Longrightarrow> worded raw \<Longrightarrow> renderTasks w = Inr w \<and> renderDailySettings w = Inr w"
  by (rule legible_renders) (rule reachable_legible)

subsection \<open>The example worlds\<close>

lemma first_run_world_eq:
  "first_run_world =
    \<lparr>tasks = [3, 4, 5], dailyRoutine = [0, 1, 2],
     settings = \<lparr>font = 1, timeFormat = ''12h'', dateFormat = ''Month'', themeColor = ''green''\<rparr>,
     lastOpenDate = JStr ''Mon Jan 01 2024'',
     heap = DEFAULT_DAILY_TASKS_objects @
       [[(''id'', JStr ''_a''), (''text'', JStr ''Morning Stretch''), (''type'', JStr ''daily''),
         (''completed'', JBool False), (''dateAdded'', JStr ''Mon Jan 01 2024'')],
        [(''id'', JStr ''_aa''), (''text'', JStr ''Read 15 Mins''), (''type'', JStr ''daily''),
         (''completed'', JBool False), (''dateAdded'', JStr ''Mon Jan 01 2024'')],
        [(''id'', JStr ''_aaa''), (''text'', JStr ''Clear Inbox''), (''type'', JStr ''daily''),
         (''completed'', JBool False), (''dateAdded'', JStr ''Mon Jan 01 2024'')]],
     Math_random = example_random, draws = 3,
     written =
       [\<lparr>p_tasks =
           [[(''id'', JStr ''_a''), (''text'', JStr ''Morning Stretch''), (''type'', JStr ''daily''),
             (''completed'', JBool False), (''dateAdded'', JStr ''Mon Jan 01 2024'')],
            [(''id'', JStr ''_aa''), (''text'', JStr ''Read 15 Mins''), (''type'', JStr ''daily''),
             (''completed'', JBool False), (''dateAdded'', JStr ''Mon Jan 01 2024'')],
            [(''id'', JStr ''_aaa''), (''text'', JStr ''Clear Inbox''), (''type'', JStr ''daily''),
             (''completed'', JBool False), (''dateAdded'', JStr ''Mon Jan 01 2024'')]],
         p_dailyRoutine = DEFAULT_DAILY_TASKS_objects,
         p_settings = \<lparr>font = 1, timeFormat = ''12h'', dateFormat = ''Month'', themeColor = ''green''\<rparr>,
         p_lastOpenDate = JStr ''Mon Jan 01 2024''\<rparr>]\<rparr>"
  by (simp add: load_defs run_defs example_random_def numeral_3_eq_3)

lemma reachable_init:
  assumes "loadState raw d1 (initial rnd) = Inr w1"
  shows "reachable raw (after (init raw d1 d2 d3 (initial rnd)))"
proof -
  have l: "reachable raw w1"
    using assms by (rule reachable.loaded)
  then have m: "reachable raw (checkMidnightReset d2 w1)"
    by (rule reachable.midnight)
  then have "reachable raw (reconcile d2 d3 w1)"
    unfolding reconcile_def by (rule reachable.backfill)
  with m show ?thesis
    by (simp add: after_init assms)
qed

text \<open>
  With printable texts in storage, \<open>init\<close> returns, and the world it returns is the one
  that the two checks make of the loaded state. With a template whose text is \<open>true\<close>,
  stored on Monday and loaded on Tuesday, it ends with the TypeError of the
  \<open>renderTasks()\<close> in \<open>performDailyReset\<close>: one task and one payload, no backfill.
\<close>

lemma init_returns:
  assumes "worded raw" and "loadState raw d1 (initial rnd) = Inr w1"
  shows "init raw d1 d2 d3 (initial rnd) = Inr (reconcile d2 d3 w1)"
proof -
  have l: "reachable raw w1"
    using assms(2) by (rule reachable.loaded)
  then have m: "reachable raw (checkMidnightReset d2 w1)"
    by (rule reachable.midnight)
  then have r: "reachable raw (ensureDailyTasks d3 (checkMidnightReset d2 w1))"
    by (rule reachable.backfill)
  note rendering_returns [OF m assms(1)] rendering_returns [OF r assms(1)]
  then show ?thesis
    by (simp add: init_def assms(2) reconcile_def)
qed

lemma init_stops_when_rendering_throws:
  "isl (init (Parsed \<lparr>s_tasks = Some [],
       s_dailyRoutine = Given [[(''id'', JStr ''r1''), (''text'', JBool True)]],
       s_settings = None, s_lastOpenDate = Some (JStr ''Mon Jan 01 2024'')\<rparr>)
     ''Tue Jan 02 2024'' ''Tue Jan 02 2024'' ''Tue Jan 02 2024'' (initial example_random)) \<and>
   length (tasks (after (init (Parsed \<lparr>s_tasks = Some [],
       s_dailyRoutine = Given [[(''id'', JStr ''r1''), (''text'', JBool True)]],
       s_settings = None, s_lastOpenDate = Some (JStr ''Mon Jan 01 2024'')\<rparr>)
     ''Tue Jan 02 2024'' ''Tue Jan 02 2024'' ''Tue Jan 02 2024'' (initial example_random)))) = 1 \<and>
   length (written (after (init (Parsed \<lparr>s_tasks = Some [],
       s_dailyRoutine = Given [[(''id'', JStr ''r1''), (''text'', JBool True)]],
       s_settings = None, s_lastOpenDate = Some (JStr ''Mon Jan 01 2024'')\<rparr>)
     ''Tue Jan 02 2024'' ''Tue Jan 02 2024'' ''Tue Jan 02 2024'' (initial example_random)))) = 1"
  by (simp add: load_defs run_defs example_random_def)

lemma first_run_world_reachable: "reachable NoItem first_run_world"
proof -
  obtain w1 where "loadState NoItem ''Mon Jan 01 2024'' (initial example_random) = Inr w1"
    using loadState_first_run [of NoItem] by blast
  then show ?thesis
    unfolding first_run_world_def by (rule reachable_init)
qed

lemma findTask_None:
  "findTask i w = None \<longleftrightarrow> \<not> (\<exists>t\<in>set (tasks w). getProp ''id'' (heap w ! t) = i)"
  by (auto simp: findTask_def find_None_iff)

lemma findTask_first:
  assumes "n < length (tasks w)" and "getProp ''id'' (heap w ! (tasks w ! n)) = i"
    and "\<forall>m<n. getProp ''id'' (heap w ! (tasks w ! m)) \<noteq> i"
  shows "findTask i w = Some (tasks w ! n)"
  unfolding findTask_def find_Some_iff using assms by blast

lemma toggleTask_found:
  assumes "findTask i w = Some t"
  shows "toggleTask i w =
    saveState (w\<lparr>heap := (heap w)[t :=
      setProp ''completed'' (JBool (\<not> truthy (getProp ''completed'' (heap w ! t)))) (heap w ! t)]\<rparr>)"
  using assms by (simp add: toggleTask_def)

section \<open>The claims\<close>

subsection \<open>Reset (C1)\<close>

text \<open>
  Claim C1. In a world whose \<open>lastOpenDate\<close> is not today's date, the reset check followed by
  the backfill check does what the reset alone does, and leaves in \<open>tasks\<close> exactly one new
  object per template of \<open>dailyRoutine\<close>, in routine order. The \<open>k\<close>-th one is the object
  literal made from the \<open>k\<close>-th template: \<open>completed\<close> is false, \<open>dateAdded\<close> is today, \<open>type\<close> is
  \<open>daily\<close> and the text is the template's. Its \<open>id\<close> is an underscore followed by the
  characters 2 to 10 of a draw of its own, draw number \<open>draws w + k\<close>; the reset makes as
  many draws as there are templates. The identifiers are fresh as far as the draws are:
  when the draws of this reset differ pairwise in those characters, the new identifiers
  differ pairwise, and when the identifier made from a draw is not the \<open>id\<close> of an object
  that existed, the new task's \<open>id\<close> differs from the \<open>id\<close> of every object that existed, old
  tasks and templates alike (\<open>Math.random\<close> can repeat a value and \<open>generateId\<close> does not
  look for a clash). Every address in the new \<open>tasks\<close> is newly allocated, so no previous
  task is among them; the objects that existed are untouched, \<open>dailyRoutine\<close> is the same,
  \<open>lastOpenDate\<close> is today, and one payload is written: the new tasks, the routine, the
  settings and today's date.
  The world is one without dangling addresses (\<open>heap_ok\<close>) whose templates have type
  \<open>daily\<close> (\<open>routineDaily\<close>), as every template that the source creates has: by
  \<open>reachable_hypotheses\<close> every world reached from a stored item with such templates is one.
\<close>

theorem reset_replaces_tasks:
  assumes "heap_ok w" and "routineDaily w" and "lastOpenDate w \<noteq> JStr today"
  shows "let w' = reconcile today today w; n = length (dailyRoutine w); base = length (heap w) in
     w' = performDailyReset today w \<and>
     tasks w' = [base ..< base + n] \<and>
     (\<forall>k<n. heap w' ! (tasks w' ! k) =
        taskFrom (heap w ! (dailyRoutine w ! k)) (idOfDraw (Math_random w (draws w + k))) today) \<and>
     (\<forall>k<n. getProp ''id'' (heap w' ! (tasks w' ! k)) =
          JStr (''_'' @ take 9 (drop 2 (Math_random w (draws w + k)))) \<and>
        getProp ''completed'' (heap w' ! (tasks w' ! k)) = JBool False \<and>
        getProp ''dateAdded'' (heap w' ! (tasks w' ! k)) = JStr today \<and>
        getProp ''type'' (heap w' ! (tasks w' ! k)) = JStr ''daily'' \<and>
        getProp ''text'' (heap w' ! (tasks w' ! k)) = getProp ''text'' (heap w ! (dailyRoutine w ! k))) \<and>
     draws w' = draws w + n \<and>
     (distinct (map (\<lambda>k. take 9 (drop 2 (Math_random w k))) [draws w ..< draws w + n]) \<longrightarrow>
        distinct (map (\<lambda>r. getProp ''id'' (heap w' ! r)) (tasks w'))) \<and>
     (\<forall>k<n. (\<forall>ob\<in>set (heap w).
            getProp ''id'' ob \<noteq> JStr (''_'' @ take 9 (drop 2 (Math_random w (draws w + k))))) \<longrightarrow>
          (\<forall>ob\<in>set (heap w). getProp ''id'' (heap w' ! (tasks w' ! k)) \<noteq> getProp ''id'' ob)) \<and>
     (\<forall>r\<in>set (tasks w'). r \<notin> set (tasks w)) \<and>
     lastOpenDate w' = JStr today \<and>
     dailyRoutine w' = dailyRoutine w \<and>
     (\<forall>r<base. heap w' ! r = heap w ! r) \<and>
     written w' = written w @
       [\<lparr>p_tasks = map (\<lambda>r. heap w' ! r) (tasks w'),
         p_dailyRoutine = map (\<lambda>r. heap w ! r) (dailyRoutine w),
         p_settings = settings w, p_lastOpenDate = JStr today\<rparr>]"
proof -
  let ?w' = "reconcile today today w"
  let ?n = "length (dailyRoutine w)"
  let ?base = "length (heap w)"
  have same: "?w' = performDailyReset today w"
    by (rule reconcile_reset [OF assms])
  have eq: "?w' = saveState (w\<lparr>heap := heap w @ newTasks today (dailyRoutine w) w,
      draws := draws w + ?n,
      tasks := [?base ..< ?base + ?n],
      lastOpenDate := JStr today\<rparr>)"
    using same performDailyReset_eq [OF assms(1)] by simp
  have t: "tasks ?w' = [?base ..< ?base + ?n]"
    and h: "heap ?w' = heap w @ newTasks today (dailyRoutine w) w"
    and l: "lastOpenDate ?w' = JStr today"
    and r: "dailyRoutine ?w' = dailyRoutine w"
    and dr: "draws ?w' = draws w + ?n"
    and s: "settings ?w' = settings w"
    unfolding eq by (simp_all add: saveState_def)
  have keep: "heap ?w' ! r = heap w ! r" if "r < ?base" for r
    using that unfolding h by (simp add: nth_append)
  have routine: "map (\<lambda>r. heap ?w' ! r) (dailyRoutine w) = map (\<lambda>r. heap w ! r) (dailyRoutine w)"
    using assms(1) keep by (simp add: heap_ok_def list_all_iff)
  have wr: "written ?w' = written w @
       [\<lparr>p_tasks = map (\<lambda>r. heap ?w' ! r) (tasks ?w'),
         p_dailyRoutine = map (\<lambda>r. heap w ! r) (dailyRoutine w),
         p_settings = settings w, p_lastOpenDate = JStr today\<rparr>]"
    unfolding routine [symmetric] unfolding eq by (simp add: saveState_def snapshot_def)
  have obj: "heap ?w' ! (tasks ?w' ! k) =
      taskFrom (heap w ! (dailyRoutine w ! k)) (idOfDraw (Math_random w (draws w + k))) today"
    if "k < ?n" for k
    using that unfolding t h by (simp add: nth_append newTasks_nth)
  have ty: "getProp ''type'' (heap w ! (dailyRoutine w ! k)) = JStr ''daily''" if "k < ?n" for k
    using assms(2) that by (simp add: routineDaily_def list_all_length)
  have old: "r \<notin> set (tasks w)" if "r \<in> set (tasks ?w')" for r
    using that assms(1) unfolding t by (auto simp: heap_ok_def list_all_iff)
  have objs: "map (\<lambda>r. heap ?w' ! r) (tasks ?w') = newTasks today (dailyRoutine w) w"
    unfolding t h using map_nth_appended [of "heap w" "newTasks today (dailyRoutine w) w"]
    by (simp add: length_newTasks)
  have "map (\<lambda>r. getProp ''id'' (heap ?w' ! r)) (tasks ?w') =
      map (getProp ''id'') (map (\<lambda>r. heap ?w' ! r) (tasks ?w'))"
    by simp
  then have ids: "map (\<lambda>r. getProp ''id'' (heap ?w' ! r)) (tasks ?w') =
      map (\<lambda>k. JStr (idOfDraw (Math_random w k))) [draws w ..< draws w + ?n]"
    unfolding objs ids_newTasks .
  have dist: "distinct (map (\<lambda>r. getProp ''id'' (heap ?w' ! r)) (tasks ?w'))"
    if "distinct (map (\<lambda>k. take 9 (drop 2 (Math_random w k))) [draws w ..< draws w + ?n])"
    unfolding ids using that by (rule distinct_ids_of_draws)
  have idk: "getProp ''id'' (heap ?w' ! (tasks ?w' ! k)) =
      JStr (''_'' @ take 9 (drop 2 (Math_random w (draws w + k))))" if "k < ?n" for k
    using obj [OF that] by (simp add: taskFrom_props idOfDraw_def)
  have unused: "\<forall>ob\<in>set (heap w). getProp ''id'' (heap ?w' ! (tasks ?w' ! k)) \<noteq> getProp ''id'' ob"
    if "k < ?n" and "\<forall>ob\<in>set (heap w).
        getProp ''id'' ob \<noteq> JStr (''_'' @ take 9 (drop 2 (Math_random w (draws w + k))))" for k
    using that(2) unfolding idk [OF that(1)] by metis
  have props: "getProp ''completed'' (heap ?w' ! (tasks ?w' ! k)) = JBool False \<and>
        getProp ''dateAdded'' (heap ?w' ! (tasks ?w' ! k)) = JStr today \<and>
        getProp ''type'' (heap ?w' ! (tasks ?w' ! k)) = JStr ''daily'' \<and>
        getProp ''text'' (heap ?w' ! (tasks ?w' ! k)) = getProp ''text'' (heap w ! (dailyRoutine w ! k))"
    if "k < ?n" for k
    unfolding obj [OF that] using ty [OF that] by (simp add: taskFrom_props)
  show ?thesis
    unfolding Let_def
    using same t obj idk props old l r keep wr dr dist unused
    by blast
qed

text \<open>
  The scenario of the specification (Monday's list, opened on Tuesday), and the world
  after a first run on Monday, opened on Tuesday: three templates, the draws 3 to 5
  differ, and the three new identifiers differ from each other and from the six
  identifiers that existed.
\<close>

theorem reset_replaces_tasks_witness:
  "heap_ok monday_world \<and> routineDaily monday_world \<and>
   lastOpenDate monday_world \<noteq> JStr ''Tue Jan 02 2024'' \<and>
   tasks (reconcile ''Tue Jan 02 2024'' ''Tue Jan 02 2024'' monday_world) = [5] \<and>
   heap (reconcile ''Tue Jan 02 2024'' ''Tue Jan 02 2024'' monday_world) ! 5 =
     [(''id'', JStr ''_a''), (''text'', JStr ''Stretch''), (''type'', JStr ''daily''),
      (''completed'', JBool False), (''dateAdded'', JStr ''Tue Jan 02 2024'')] \<and>
   lastOpenDate (reconcile ''Tue Jan 02 2024'' ''Tue Jan 02 2024'' monday_world) =
     JStr ''Tue Jan 02 2024'' \<and>
   heap_ok first_run_world \<and> routineDaily first_run_world \<and>
   lastOpenDate first_run_world \<noteq> JStr ''Tue Jan 02 2024'' \<and>
   map (getProp ''id'') (heap first_run_world) =
     [JStr ''dt1'', JStr ''dt2'', JStr ''dt3'', JStr ''_a'', JStr ''_aa'', JStr ''_aaa''] \<and>
   distinct (map (\<lambda>k. take 9 (drop 2 (Math_random first_run_world k))) [3 ..< 6]) \<and>
   tasks (reconcile ''Tue Jan 02 2024'' ''Tue Jan 02 2024'' first_run_world) = [6, 7, 8] \<and>
   map (\<lambda>r. getProp ''id'' (heap (reconcile ''Tue Jan 02 2024'' ''Tue Jan 02 2024'' first_run_world) ! r))
     (tasks (reconcile ''Tue Jan 02 2024'' ''Tue Jan 02 2024'' first_run_world)) =
     [JStr ''_aaaa'', JStr ''_aaaaa'', JStr ''_aaaaaa''] \<and>
   written (reconcile ''Tue Jan 02 2024'' ''Tue Jan 02 2024'' first_run_world) =
     written first_run_world @
     [\<lparr>p_tasks =
         [[(''id'', JStr ''_aaaa''), (''text'', JStr ''Morning Stretch''), (''type'', JStr ''daily''),
           (''completed'', JBool False), (''dateAdded'', JStr ''Tue Jan 02 2024'')],
          [(''id'', JStr ''_aaaaa''), (''text'', JStr ''Read 15 Mins''), (''type'', JStr ''daily''),
           (''completed'', JBool False), (''dateAdded'', JStr ''Tue Jan 02 2024'')],
          [(''id'', JStr ''_aaaaaa''), (''text'', JStr ''Clear Inbox''), (''type'', JStr ''daily''),
           (''completed'', JBool False), (''dateAdded'', JStr ''Tue Jan 02 2024'')]],
       p_dailyRoutine = DEFAULT_DAILY_TASKS_objects,
       p_settings = \<lparr>font = 1, timeFormat = ''12h'', dateFormat = ''Month'', themeColor = ''green''\<rparr>,
       p_lastOpenDate = JStr ''Tue Jan 02 2024''\<rparr>]"
proof -
  have m: "heap_ok monday_world" "routineDaily monday_world"
    "lastOpenDate monday_world \<noteq> JStr ''Tue Jan 02 2024''"
    by (simp_all add: monday_world_def run_defs)
  have f: "heap_ok first_run_world" "routineDaily first_run_world"
    "lastOpenDate first_run_world \<noteq> JStr ''Tue Jan 02 2024''"
    by (simp_all add: first_run_world_eq run_defs)
  have ev: ?thesis
    by (simp add: monday_world_def first_run_world_eq example_random_def run_defs upt_rec
        eval_nat_numeral)
  show ?thesis
    using reset_replaces_tasks [OF m] reset_replaces_tasks [OF f]
    by - (rule ev)
qed

subsection \<open>Malformed storage (C2)\<close>




subsection \<open>Backfill (C3)\<close>

text \<open>
  Claim C3. In a world with no task of type \<open>daily\<close>, a non-empty \<open>dailyRoutine\<close> and
  \<open>lastOpenDate\<close> equal to today, the reset check changes nothing and the backfill step puts
  one new object per template, in routine order, in front of the tasks that were there:
  each new object has \<open>completed\<close> false, \<open>dateAdded\<close> today, type \<open>daily\<close> and the template's
  text; the old tasks follow in their order, and no object that existed is changed. The
  \<open>id\<close> of the \<open>k\<close>-th new task is an underscore followed by the characters 2 to 10 of draw
  number \<open>draws w + k\<close>, a draw of its own. The identifiers are fresh as far as the draws
  are: when the draws of this step differ pairwise in those characters, so do the new
  identifiers; when the identifier made from a draw is not the \<open>id\<close> of an object that
  existed, the new task's \<open>id\<close> differs from the \<open>id\<close> of every object that existed; and when in
  addition the old tasks had pairwise different identifiers, all tasks have afterwards.
  One payload is written: all tasks, the routine, the settings and today's date. The
  world is as in C1: no dangling address, templates of type \<open>daily\<close>.
\<close>

theorem backfill_prepends:
  assumes "heap_ok w" and "routineDaily w" and "\<not> hasDailyTasks w" and "dailyRoutine w \<noteq> []"
    and "lastOpenDate w = JStr today"
  shows "let w' = reconcile today today w; n = length (dailyRoutine w); base = length (heap w) in
     checkMidnightReset today w = w \<and>
     w' = ensureDailyTasks today w \<and>
     tasks w' = [base ..< base + n] @ tasks w \<and>
     (\<forall>k<n. heap w' ! (tasks w' ! k) =
        taskFrom (heap w ! (dailyRoutine w ! k)) (idOfDraw (Math_random w (draws w + k))) today) \<and>
     (\<forall>k<n. getProp ''id'' (heap w' ! (tasks w' ! k)) =
          JStr (''_'' @ take 9 (drop 2 (Math_random w (draws w + k)))) \<and>
        getProp ''completed'' (heap w' ! (tasks w' ! k)) = JBool False \<and>
        getProp ''dateAdded'' (heap w' ! (tasks w' ! k)) = JStr today \<and>
        getProp ''type'' (heap w' ! (tasks w' ! k)) = JStr ''daily'' \<and>
        getProp ''text'' (heap w' ! (tasks w' ! k)) = getProp ''text'' (heap w ! (dailyRoutine w ! k))) \<and>
     draws w' = draws w + n \<and>
     (distinct (map (\<lambda>k. take 9 (drop 2 (Math_random w k))) [draws w ..< draws w + n]) \<longrightarrow>
        distinct (map (\<lambda>r. getProp ''id'' (heap w' ! r)) (take n (tasks w')))) \<and>
     (\<forall>k<n. (\<forall>ob\<in>set (heap w).
            getProp ''id'' ob \<noteq> JStr (''_'' @ take 9 (drop 2 (Math_random w (draws w + k))))) \<longrightarrow>
          (\<forall>ob\<in>set (heap w). getProp ''id'' (heap w' ! (tasks w' ! k)) \<noteq> getProp ''id'' ob)) \<and>
     (distinct (map (\<lambda>k. take 9 (drop 2 (Math_random w k))) [draws w ..< draws w + n]) \<and>
      distinct (map (\<lambda>r. getProp ''id'' (heap w ! r)) (tasks w)) \<and>
      (\<forall>k<n. \<forall>r\<in>set (tasks w).
          getProp ''id'' (heap w ! r) \<noteq> JStr (''_'' @ take 9 (drop 2 (Math_random w (draws w + k))))) \<longrightarrow>
        distinct (map (\<lambda>r. getProp ''id'' (heap w' ! r)) (tasks w'))) \<and>
     (\<forall>r<base. heap w' ! r = heap w ! r) \<and>
     map (\<lambda>r. heap w' ! r) (tasks w) = map (\<lambda>r. heap w ! r) (tasks w) \<and>
     lastOpenDate w' = JStr today \<and>
     dailyRoutine w' = dailyRoutine w \<and>
     written w' = written w @
       [\<lparr>p_tasks = map (\<lambda>r. heap w' ! r) (tasks w'),
         p_dailyRoutine = map (\<lambda>r. heap w ! r) (dailyRoutine w),
         p_settings = settings w, p_lastOpenDate = JStr today\<rparr>]"
proof -
  let ?w' = "reconcile today today w"
  let ?n = "length (dailyRoutine w)"
  let ?base = "length (heap w)"
  let ?new = "[?base ..< ?base + ?n]"
  have no_reset: "checkMidnightReset today w = w"
    using assms(5) by (simp add: checkMidnightReset_def)
  then have same: "?w' = ensureDailyTasks today w"
    by (simp add: reconcile_def)
  have eq: "?w' = saveState (w\<lparr>heap := heap w @ newTasks today (dailyRoutine w) w,
      draws := draws w + ?n, tasks := ?new @ tasks w\<rparr>)"
    unfolding same by (rule backfill_eq [OF assms(1,3,4)])
  have t: "tasks ?w' = ?new @ tasks w"
    and h: "heap ?w' = heap w @ newTasks today (dailyRoutine w) w"
    and l: "lastOpenDate ?w' = JStr today"
    and r: "dailyRoutine ?w' = dailyRoutine w"
    and dr: "draws ?w' = draws w + ?n"
    unfolding eq using assms(5) by (simp_all add: saveState_def)
  have keep: "heap ?w' ! r = heap w ! r" if "r < ?base" for r
    using that unfolding h by (simp add: nth_append)
  have old: "map (\<lambda>r. heap ?w' ! r) (tasks w) = map (\<lambda>r. heap w ! r) (tasks w)"
    using assms(1) keep by (simp add: heap_ok_def list_all_iff)
  have routine: "map (\<lambda>r. heap ?w' ! r) (dailyRoutine w) = map (\<lambda>r. heap w ! r) (dailyRoutine w)"
    using assms(1) keep by (simp add: heap_ok_def list_all_iff)
  have wr: "written ?w' = written w @
       [\<lparr>p_tasks = map (\<lambda>r. heap ?w' ! r) (tasks ?w'),
         p_dailyRoutine = map (\<lambda>r. heap w ! r) (dailyRoutine w),
         p_settings = settings w, p_lastOpenDate = JStr today\<rparr>]"
    unfolding routine [symmetric] unfolding eq using assms(5)
    by (simp add: saveState_def snapshot_def)
  have obj: "heap ?w' ! (tasks ?w' ! k) =
      taskFrom (heap w ! (dailyRoutine w ! k)) (idOfDraw (Math_random w (draws w + k))) today"
    if "k < ?n" for k
    using that unfolding t h by (simp add: nth_append newTasks_nth)
  have ty: "getProp ''type'' (heap w ! (dailyRoutine w ! k)) = JStr ''daily''" if "k < ?n" for k
    using assms(2) that by (simp add: routineDaily_def list_all_length)
  have idk: "getProp ''id'' (heap ?w' ! (tasks ?w' ! k)) =
      JStr (''_'' @ take 9 (drop 2 (Math_random w (draws w + k))))" if "k < ?n" for k
    using obj [OF that] by (simp add: taskFrom_props idOfDraw_def)
  have props: "getProp ''completed'' (heap ?w' ! (tasks ?w' ! k)) = JBool False \<and>
        getProp ''dateAdded'' (heap ?w' ! (tasks ?w' ! k)) = JStr today \<and>
        getProp ''type'' (heap ?w' ! (tasks ?w' ! k)) = JStr ''daily'' \<and>
        getProp ''text'' (heap ?w' ! (tasks ?w' ! k)) = getProp ''text'' (heap w ! (dailyRoutine w ! k))"
    if "k < ?n" for k
    unfolding obj [OF that] using ty [OF that] by (simp add: taskFrom_props)
  have unused: "\<forall>ob\<in>set (heap w). getProp ''id'' (heap ?w' ! (tasks ?w' ! k)) \<noteq> getProp ''id'' ob"
    if "k < ?n" and "\<forall>ob\<in>set (heap w).
        getProp ''id'' ob \<noteq> JStr (''_'' @ take 9 (drop 2 (Math_random w (draws w + k))))" for k
    using that(2) unfolding idk [OF that(1)] by metis
  have objs: "map (\<lambda>r. heap ?w' ! r) ?new = newTasks today (dailyRoutine w) w"
    unfolding h using map_nth_appended [of "heap w" "newTasks today (dailyRoutine w) w"]
    by (simp add: length_newTasks)
  have "map (\<lambda>r. getProp ''id'' (heap ?w' ! r)) ?new = map (getProp ''id'') (map (\<lambda>r. heap ?w' ! r) ?new)"
    by simp
  then have ids: "map (\<lambda>r. getProp ''id'' (heap ?w' ! r)) ?new =
      map (\<lambda>k. JStr (idOfDraw (Math_random w k))) [draws w ..< draws w + ?n]"
    unfolding objs ids_newTasks .
  have tk: "take ?n (tasks ?w') = ?new"
    unfolding t by simp
  have dist: "distinct (map (\<lambda>r. getProp ''id'' (heap ?w' ! r)) (take ?n (tasks ?w')))"
    if "distinct (map (\<lambda>k. take 9 (drop 2 (Math_random w k))) [draws w ..< draws w + ?n])"
    unfolding tk ids using that by (rule distinct_ids_of_draws)
  have oldids: "map (\<lambda>r. getProp ''id'' (heap ?w' ! r)) (tasks w) =
      map (\<lambda>r. getProp ''id'' (heap w ! r)) (tasks w)"
    using assms(1) keep by (simp add: heap_ok_def list_all_iff)
  have all: "distinct (map (\<lambda>r. getProp ''id'' (heap ?w' ! r)) (tasks ?w'))"
    if d: "distinct (map (\<lambda>k. take 9 (drop 2 (Math_random w k))) [draws w ..< draws w + ?n])"
      and o: "distinct (map (\<lambda>r. getProp ''id'' (heap w ! r)) (tasks w))"
      and c: "\<forall>k<?n. \<forall>r\<in>set (tasks w).
          getProp ''id'' (heap w ! r) \<noteq> JStr (''_'' @ take 9 (drop 2 (Math_random w (draws w + k))))"
  proof -
    have disj: "set (map (\<lambda>k. JStr (idOfDraw (Math_random w k))) [draws w ..< draws w + ?n]) \<inter>
        set (map (\<lambda>r. getProp ''id'' (heap w ! r)) (tasks w)) = {}"
    proof (rule ccontr)
      assume "\<not> ?thesis"
      then obtain j r where j: "draws w \<le> j" "j < draws w + ?n" and r: "r \<in> set (tasks w)"
        and e: "JStr (idOfDraw (Math_random w j)) = getProp ''id'' (heap w ! r)"
        by auto
      from j have "j - draws w < ?n" "draws w + (j - draws w) = j" by simp_all
      with c r e show False
        by (metis idOfDraw_eq)
    qed
    show ?thesis
      unfolding t map_append distinct_append ids oldids
      using distinct_ids_of_draws [OF d] o disj by simp
  qed
  show ?thesis
    unfolding Let_def
    using no_reset same t obj idk props keep old l r wr dr dist unused all
    by blast
qed

text \<open>
  The default routine, one extra task with the identifier of draw 0 and no daily task:
  the draws 1 to 3 differ, and the three new tasks get identifiers that differ from each
  other and from the four that existed.
\<close>

theorem backfill_prepends_witness:
  "heap_ok extras_world \<and> routineDaily extras_world \<and> \<not> hasDailyTasks extras_world \<and>
   dailyRoutine extras_world \<noteq> [] \<and> lastOpenDate extras_world = JStr ''Tue Jan 02 2024'' \<and>
   map (getProp ''id'') (heap extras_world) = [JStr ''dt1'', JStr ''dt2'', JStr ''dt3'', JStr ''_a''] \<and>
   distinct (map (\<lambda>k. take 9 (drop 2 (Math_random extras_world k))) [1 ..< 4]) \<and>
   tasks (reconcile ''Tue Jan 02 2024'' ''Tue Jan 02 2024'' extras_world) = [4, 5, 6, 3] \<and>
   map (\<lambda>r. getProp ''id'' (heap (reconcile ''Tue Jan 02 2024'' ''Tue Jan 02 2024'' extras_world) ! r))
     (tasks (reconcile ''Tue Jan 02 2024'' ''Tue Jan 02 2024'' extras_world)) =
     [JStr ''_aa'', JStr ''_aaa'', JStr ''_aaaa'', JStr ''_a''] \<and>
   heap (reconcile ''Tue Jan 02 2024'' ''Tue Jan 02 2024'' extras_world) ! 4 =
     [(''id'', JStr ''_aa''), (''text'', JStr ''Morning Stretch''), (''type'', JStr ''daily''),
      (''completed'', JBool False), (''dateAdded'', JStr ''Tue Jan 02 2024'')] \<and>
   heap (reconcile ''Tue Jan 02 2024'' ''Tue Jan 02 2024'' extras_world) ! 3 = heap extras_world ! 3 \<and>
   length (written (reconcile ''Tue Jan 02 2024'' ''Tue Jan 02 2024'' extras_world)) = 1 \<and>
   p_tasks (last (written (reconcile ''Tue Jan 02 2024'' ''Tue Jan 02 2024'' extras_world))) =
     [[(''id'', JStr ''_aa''), (''text'', JStr ''Morning Stretch''), (''type'', JStr ''daily''),
       (''completed'', JBool False), (''dateAdded'', JStr ''Tue Jan 02 2024'')],
      [(''id'', JStr ''_aaa''), (''text'', JStr ''Read 15 Mins''), (''type'', JStr ''daily''),
       (''completed'', JBool False), (''dateAdded'', JStr ''Tue Jan 02 2024'')],
      [(''id'', JStr ''_aaaa''), (''text'', JStr ''Clear Inbox''), (''type'', JStr ''daily''),
       (''completed'', JBool False), (''dateAdded'', JStr ''Tue Jan 02 2024'')],
      [(''id'', JStr ''_a''), (''text'', JStr ''Buy milk''), (''completed'', JBool True),
       (''type'', JStr ''extra''), (''dateAdded'', JStr ''Tue Jan 02 2024'')]]"
proof -
  have e: "heap_ok extras_world" "routineDaily extras_world" "\<not> hasDailyTasks extras_world"
    "dailyRoutine extras_world \<noteq> []" "lastOpenDate extras_world = JStr ''Tue Jan 02 2024''"
    by (simp_all add: extras_world_def run_defs)
  have ev: ?thesis
    by (simp add: extras_world_def example_random_def run_defs upt_rec eval_nat_numeral)
  show ?thesis
    using backfill_prepends [OF e]
    by - (rule ev)
qed

subsection \<open>First run (C4)\<close>

text \<open>
  Claim C4. With no stored item, and the same date read by all three steps, \<open>init\<close> returns
  a world in which \<open>dailyRoutine\<close> is the three default templates (not empty), \<open>lastOpenDate\<close>
  is today, and \<open>tasks\<close> holds one new object per default template in template order, with
  \<open>completed\<close> false, \<open>dateAdded\<close> today, type \<open>daily\<close> and the template's text. The \<open>id\<close> of the
  \<open>k\<close>-th task is an underscore followed by the characters 2 to 10 of draw \<open>k\<close>; three draws
  are made. No task has the \<open>id\<close> of a template, and the three identifiers differ pairwise
  exactly when the three draws differ in those characters. The settings are the defaults,
  and exactly one payload has been written, which holds the whole final state: the
  three tasks, the three templates, the default settings and today's date.
\<close>

theorem first_run_bootstrap:
  "\<exists>w'. init NoItem today today today (initial rnd) = Inr w' \<and>
     dailyRoutine w' = DEFAULT_DAILY_TASKS \<and>
     dailyRoutine w' \<noteq> [] \<and>
     map (\<lambda>r. heap w' ! r) (dailyRoutine w') = DEFAULT_DAILY_TASKS_objects \<and>
     lastOpenDate w' = JStr today \<and>
     tasks w' = [3, 4, 5] \<and>
     map (\<lambda>r. heap w' ! r) (tasks w') =
       [[(''id'', JStr (''_'' @ take 9 (drop 2 (rnd 0)))), (''text'', JStr ''Morning Stretch''),
         (''type'', JStr ''daily''), (''completed'', JBool False), (''dateAdded'', JStr today)],
        [(''id'', JStr (''_'' @ take 9 (drop 2 (rnd 1)))), (''text'', JStr ''Read 15 Mins''),
         (''type'', JStr ''daily''), (''completed'', JBool False), (''dateAdded'', JStr today)],
        [(''id'', JStr (''_'' @ take 9 (drop 2 (rnd 2)))), (''text'', JStr ''Clear Inbox''),
         (''type'', JStr ''daily''), (''completed'', JBool False), (''dateAdded'', JStr today)]] \<and>
     draws w' = 3 \<and>
     (\<forall>t\<in>set (tasks w'). \<forall>r\<in>set (dailyRoutine w').
        getProp ''id'' (heap w' ! t) \<noteq> getProp ''id'' (heap w' ! r)) \<and>
     distinct (map (\<lambda>r. getProp ''id'' (heap w' ! r)) (tasks w')) =
       distinct [take 9 (drop 2 (rnd 0)), take 9 (drop 2 (rnd 1)), take 9 (drop 2 (rnd 2))] \<and>
     settings w' =
       \<lparr>font = 1, timeFormat = ''12h'', dateFormat = ''Month'', themeColor = ''green''\<rparr> \<and>
     written w' =
       [\<lparr>p_tasks =
           [[(''id'', JStr (''_'' @ take 9 (drop 2 (rnd 0)))), (''text'', JStr ''Morning Stretch''),
             (''type'', JStr ''daily''), (''completed'', JBool False), (''dateAdded'', JStr today)],
            [(''id'', JStr (''_'' @ take 9 (drop 2 (rnd 1)))), (''text'', JStr ''Read 15 Mins''),
             (''type'', JStr ''daily''), (''completed'', JBool False), (''dateAdded'', JStr today)],
            [(''id'', JStr (''_'' @ take 9 (drop 2 (rnd 2)))), (''text'', JStr ''Clear Inbox''),
             (''type'', JStr ''daily''), (''completed'', JBool False), (''dateAdded'', JStr today)]],
         p_dailyRoutine =
           [[(''id'', JStr ''dt1''), (''text'', JStr ''Morning Stretch''), (''type'', JStr ''daily'')],
            [(''id'', JStr ''dt2''), (''text'', JStr ''Read 15 Mins''), (''type'', JStr ''daily'')],
            [(''id'', JStr ''dt3''), (''text'', JStr ''Clear Inbox''), (''type'', JStr ''daily'')]],
         p_settings =
           \<lparr>font = 1, timeFormat = ''12h'', dateFormat = ''Month'', themeColor = ''green''\<rparr>,
         p_lastOpenDate = JStr today\<rparr>]"
  by (simp add: init_def loadState_def initial_def reconcile_def checkMidnightReset_def
      ensureDailyTasks_def hasDailyTasks_def instantiate_def generateId_def alloc_def
      saveState_def snapshot_def taskFrom_def idOfDraw_def getProp_def renderTasks_def
      renderDailySettings_def escapeHtml_def
      DEFAULT_DAILY_TASKS_objects_def DEFAULT_DAILY_TASKS_def Let_def numeral_3_eq_3
      numeral_2_eq_2)

text \<open>A first run on Monday with three different draws.\<close>

theorem first_run_bootstrap_witness:
  "init NoItem ''Mon Jan 01 2024'' ''Mon Jan 01 2024'' ''Mon Jan 01 2024'' (initial example_random) =
     Inr first_run_world \<and>
   distinct [take 9 (drop 2 (example_random 0)), take 9 (drop 2 (example_random 1)),
     take 9 (drop 2 (example_random 2))] \<and>
   map (\<lambda>r. getProp ''id'' (heap first_run_world ! r)) (tasks first_run_world) =
     [JStr ''_a'', JStr ''_aa'', JStr ''_aaa''] \<and>
   map (\<lambda>r. getProp ''id'' (heap first_run_world ! r)) (dailyRoutine first_run_world) =
     [JStr ''dt1'', JStr ''dt2'', JStr ''dt3''] \<and>
   lastOpenDate first_run_world = JStr ''Mon Jan 01 2024'' \<and>
   written first_run_world =
     [\<lparr>p_tasks =
         [[(''id'', JStr ''_a''), (''text'', JStr ''Morning Stretch''), (''type'', JStr ''daily''),
           (''completed'', JBool False), (''dateAdded'', JStr ''Mon Jan 01 2024'')],
          [(''id'', JStr ''_aa''), (''text'', JStr ''Read 15 Mins''), (''type'', JStr ''daily''),
           (''completed'', JBool False), (''dateAdded'', JStr ''Mon Jan 01 2024'')],
          [(''id'', JStr ''_aaa''), (''text'', JStr ''Clear Inbox''), (''type'', JStr ''daily''),
           (''completed'', JBool False), (''dateAdded'', JStr ''Mon Jan 01 2024'')]],
       p_dailyRoutine = DEFAULT_DAILY_TASKS_objects,
       p_settings = \<lparr>font = 1, timeFormat = ''12h'', dateFormat = ''Month'', themeColor = ''green''\<rparr>,
       p_lastOpenDate = JStr ''Mon Jan 01 2024''\<rparr>]"
proof -
  have i: "init NoItem ''Mon Jan 01 2024'' ''Mon Jan 01 2024'' ''Mon Jan 01 2024''
      (initial example_random) = Inr first_run_world"
    using first_run_bootstrap [of "''Mon Jan 01 2024''" example_random]
    by (auto simp: first_run_world_def)
  have ev: "distinct [take 9 (drop 2 (example_random 0)), take 9 (drop 2 (example_random 1)),
       take 9 (drop 2 (example_random 2))] \<and>
     map (\<lambda>r. getProp ''id'' (heap first_run_world ! r)) (tasks first_run_world) =
       [JStr ''_a'', JStr ''_aa'', JStr ''_aaa''] \<and>
     map (\<lambda>r. getProp ''id'' (heap first_run_world ! r)) (dailyRoutine first_run_world) =
       [JStr ''dt1'', JStr ''dt2'', JStr ''dt3'']"
    by (simp add: first_run_world_eq example_random_def run_defs eval_nat_numeral)
  show ?thesis
    using i ev by (simp add: first_run_world_eq)
qed

subsection \<open>Running the checks twice (C5)\<close>

text \<open>
  Claim C5. In a world whose \<open>lastOpenDate\<close> is today, a second run of the two checks right
  after the first changes nothing at all: no reset, no backfill, the same \<open>tasks\<close> holding
  the same objects. The world is as in C1: no dangling address, templates of type \<open>daily\<close>.
\<close>

theorem reconcile_idempotent:
  assumes "heap_ok w" and "routineDaily w" and "lastOpenDate w = JStr today"
  shows "let w1 = reconcile today today w in
     reconcile today today w1 = w1 \<and>
     checkMidnightReset today w1 = w1 \<and>
     ensureDailyTasks today w1 = w1 \<and>
     tasks (reconcile today today w1) = tasks w1 \<and>
     map (\<lambda>r. heap (reconcile today today w1) ! r) (tasks (reconcile today today w1)) =
       map (\<lambda>r. heap w1 ! r) (tasks w1)"
proof -
  let ?w1 = "reconcile today today w"
  have no_reset: "checkMidnightReset today w = w"
    using assms(3) by (simp add: checkMidnightReset_def)
  then have same: "?w1 = ensureDailyTasks today w"
    by (simp add: reconcile_def)
  have date: "lastOpenDate ?w1 = JStr today"
    unfolding same using assms(3)
    by (simp add: ensureDailyTasks_def saveState_def
        instantiateAll_eq [OF heap_ok_routine [OF assms(1)]])
  then have chk: "checkMidnightReset today ?w1 = ?w1"
    by (simp add: checkMidnightReset_def)
  have ens: "ensureDailyTasks today ?w1 = ?w1"
  proof (cases "\<not> hasDailyTasks w \<and> dailyRoutine w \<noteq> []")
    case True
    then have eq: "?w1 = saveState (w\<lparr>heap := heap w @ newTasks today (dailyRoutine w) w,
        draws := draws w + length (dailyRoutine w),
        tasks := [length (heap w) ..< length (heap w) + length (dailyRoutine w)] @ tasks w\<rparr>)"
      unfolding same using backfill_eq [OF assms(1)] by simp
    have "hasDailyTasks ?w1"
      by (rule hasDailyTasks_fresh [OF assms(2), where rest = "tasks w" and d = today])
         (use True in \<open>simp_all add: eq saveState_def\<close>)
    then show ?thesis by (simp add: ensureDailyTasks_def)
  next
    case False
    then have "?w1 = w"
      unfolding same by (auto simp: ensureDailyTasks_def)
    with False show ?thesis
      by (auto simp: ensureDailyTasks_def)
  qed
  have "reconcile today today ?w1 = ?w1"
    by (simp add: reconcile_def [of today today ?w1] chk ens)
  then show ?thesis
    unfolding Let_def using chk ens by simp
qed

theorem reconcile_idempotent_witness:
  "heap_ok (monday_world\<lparr>lastOpenDate := JStr ''Tue Jan 02 2024''\<rparr>) \<and>
   routineDaily (monday_world\<lparr>lastOpenDate := JStr ''Tue Jan 02 2024''\<rparr>) \<and>
   tasks (reconcile ''Tue Jan 02 2024'' ''Tue Jan 02 2024''
     (monday_world\<lparr>lastOpenDate := JStr ''Tue Jan 02 2024''\<rparr>)) = [5, 4] \<and>
   tasks (reconcile ''Tue Jan 02 2024'' ''Tue Jan 02 2024''
     (reconcile ''Tue Jan 02 2024'' ''Tue Jan 02 2024''
       (monday_world\<lparr>lastOpenDate := JStr ''Tue Jan 02 2024''\<rparr>))) = [5, 4]"
  using reconcile_idempotent
    [of "monday_world\<lparr>lastOpenDate := JStr ''Tue Jan 02 2024''\<rparr>" "''Tue Jan 02 2024''"]
  by (simp add: monday_world_def example_random_def run_defs)

subsection \<open>A stored object without a routine (C6)\<close>

text \<open>
  Claim C6 says that loading an object without a \<open>dailyRoutine\<close> key gives the state the
  default templates. The source's test \<open>!state.dailyRoutine\<close> runs after the spread over the
  \<open>state\<close> literal, whose \<open>dailyRoutine\<close> is the empty array, and an empty array is truthy:
  for the legacy object the routine stays empty after \<open>loadState\<close>, and after \<open>init\<close> on the
  next day the task list is empty too. The defaults are merged only when the key is
  present with a falsy value.
\<close>

theorem missing_dailyRoutine_stays_empty:
  "s_dailyRoutine legacy_blob = Missing \<and>
   dailyRoutine (after (loadState (Parsed legacy_blob) ''Tue Jan 02 2024'' (initial example_random))) = [] \<and>
   tasks (after (loadState (Parsed legacy_blob) ''Tue Jan 02 2024'' (initial example_random))) = [3] \<and>
   dailyRoutine (after (init (Parsed legacy_blob) ''Tue Jan 02 2024'' ''Tue Jan 02 2024''
     ''Tue Jan 02 2024'' (initial example_random))) = [] \<and>
   tasks (after (init (Parsed legacy_blob) ''Tue Jan 02 2024'' ''Tue Jan 02 2024''
     ''Tue Jan 02 2024'' (initial example_random))) = [] \<and>
   dailyRoutine (after (loadState (Parsed (legacy_blob\<lparr>s_dailyRoutine := Falsy\<rparr>)) ''Tue Jan 02 2024''
     (initial example_random))) = DEFAULT_DAILY_TASKS"
  by (simp add: legacy_blob_def load_defs run_defs)

subsection \<open>Is the routine ever empty? (C7)\<close>

text \<open>
  Claim C7 says that \<open>dailyRoutine\<close> is never empty after initialization. After a first run,
  three calls of \<open>removeDailyTask(0)\<close> empty it.
\<close>

theorem dailyRoutine_can_become_empty:
  "dailyRoutine first_run_world \<noteq> [] \<and>
   dailyRoutine (removeDailyTask 0 (removeDailyTask 0 (removeDailyTask 0 first_run_world))) = []"
  by (simp add: first_run_world_eq removeDailyTask_def splice1_def saveState_def)

text \<open>
  Claim C7, as amended. After a first run (no stored item, or the empty text)
  \<open>dailyRoutine\<close> is the default list, which is not empty. The reset and backfill checks
  do not change \<open>dailyRoutine\<close>, and no event handler other than \<open>removeDailyTask\<close> makes a
  non-empty \<open>dailyRoutine\<close> empty; \<open>removeDailyTask\<close> removes at most one template.
\<close>

theorem dailyRoutine_emptied_only_by_removal:
  "dailyRoutine (after (init NoItem d1 d2 d3 (initial rnd))) = DEFAULT_DAILY_TASKS \<and>
   dailyRoutine (after (init EmptyText d1 d2 d3 (initial rnd))) = DEFAULT_DAILY_TASKS \<and>
   DEFAULT_DAILY_TASKS \<noteq> [] \<and>
   dailyRoutine (reconcile d2 d3 w) = dailyRoutine w \<and>
   ((\<forall>i. a \<noteq> RemoveDailyTask i) \<and> dailyRoutine w \<noteq> [] \<longrightarrow>
      dailyRoutine (after (perform a d w)) \<noteq> []) \<and>
   length (dailyRoutine w) \<le> Suc (length (dailyRoutine (removeDailyTask i w)))"
proof -
  have grow: "dailyRoutine (after (perform a d w)) \<noteq> []"
    if "\<forall>i. a \<noteq> RemoveDailyTask i" "dailyRoutine w \<noteq> []"
    using dailyRoutine_grows [OF that(1), of w d] that(2) by auto
  have rem: "length (dailyRoutine w) \<le> Suc (length (dailyRoutine (removeDailyTask i w)))"
    by (simp add: removeDailyTask_def saveState_def splice1_def Let_def)
  show ?thesis
    using grow rem
    by (simp add: dailyRoutine_init_first_run dailyRoutine_reconcile DEFAULT_DAILY_TASKS_def)
qed

theorem dailyRoutine_emptied_only_by_removal_witness:
  "dailyRoutine first_run_world = [0, 1, 2] \<and>
   (\<forall>i. AddDailyTemplate \<noteq> RemoveDailyTask i) \<and>
   dailyRoutine (after (perform AddDailyTemplate ''Mon Jan 01 2024'' first_run_world)) = [0, 1, 2, 6] \<and>
   length (dailyRoutine (removeDailyTask 5 first_run_world)) = 3 \<and>
   length (dailyRoutine (removeDailyTask (- 1) first_run_world)) = 2"
  using dailyRoutine_emptied_only_by_removal
    [of "''Mon Jan 01 2024''" "''Mon Jan 01 2024''" "''Mon Jan 01 2024''" example_random
      first_run_world AddDailyTemplate "''Mon Jan 01 2024''" 5]
  by (simp add: first_run_world_eq after_render addDailyTemplate_def removeDailyTask_def
      splice1_def run_defs)

subsection \<open>Editing the routine leaves today's tasks alone (C8)\<close>

text \<open>
  Claim C8. In every world that the program reaches, \<open>updateDailyTask\<close> (whether it returns
  or throws) and \<open>removeDailyTask\<close> leave \<open>tasks\<close> the same list of the same objects: every
  task keeps its position and all its properties. The source changes a template object
  in place, and no task is that object, because every task was made by an object literal
  of its own.
\<close>

theorem routine_edits_keep_tasks:
  assumes "reachable raw w"
  shows "tasks (after (updateDailyTask index newText w)) = tasks w \<and>
     map (\<lambda>r. heap (after (updateDailyTask index newText w)) ! r) (tasks w) =
       map (\<lambda>r. heap w ! r) (tasks w) \<and>
     tasks (removeDailyTask index w) = tasks w \<and>
     heap (removeDailyTask index w) = heap w"
proof -
  have wf: "wellformed w"
    using assms by (rule reachable_wf)
  have upd: "tasks (after (updateDailyTask index newText w)) = tasks w"
    by (simp add: updateDailyTask_def Let_def saveState_def)
  have "heap (after (updateDailyTask index newText w)) ! r = heap w ! r" if "r \<in> set (tasks w)" for r
  proof (cases "trim newText \<noteq> [] \<and> 0 \<le> index \<and> index < int (length (dailyRoutine w))")
    case True
    then have "nat index < length (dailyRoutine w)"
      by linarith
    then have "dailyRoutine w ! nat index \<in> set (dailyRoutine w)"
      by (rule nth_mem)
    with that wf have "r \<noteq> dailyRoutine w ! nat index"
      by (auto simp: wellformed_iff)
    with True show ?thesis
      by (simp add: updateDailyTask_def Let_def saveState_def)
  next
    case False
    then show ?thesis
      by (auto simp: updateDailyTask_def)
  qed
  then have objs: "map (\<lambda>r. heap (after (updateDailyTask index newText w)) ! r) (tasks w) =
       map (\<lambda>r. heap w ! r) (tasks w)"
    by simp
  have rem: "tasks (removeDailyTask index w) = tasks w" "heap (removeDailyTask index w) = heap w"
    by (simp_all add: removeDailyTask_def saveState_def)
  show ?thesis
    using upd objs rem by simp
qed

theorem routine_edits_keep_tasks_witness:
  "reachable NoItem first_run_world \<and>
   getProp ''text'' (heap (after (updateDailyTask 0 ''Yoga'' first_run_world)) ! 0) = JStr ''Yoga'' \<and>
   map (\<lambda>r. heap (after (updateDailyTask 0 ''Yoga'' first_run_world)) ! r) (tasks first_run_world) =
     map (\<lambda>r. heap first_run_world ! r) (tasks first_run_world) \<and>
   getProp ''text'' (heap (after (updateDailyTask 0 ''Yoga'' first_run_world)) ! 3) =
     JStr ''Morning Stretch'' \<and>
   dailyRoutine (removeDailyTask 0 first_run_world) = [1, 2] \<and>
   tasks (removeDailyTask 0 first_run_world) = [3, 4, 5] \<and>
   heap (removeDailyTask 0 first_run_world) = heap first_run_world"
  using routine_edits_keep_tasks [OF first_run_world_reachable, of 0 "''Yoga''"]
    first_run_world_reachable
  by (simp add: first_run_world_eq updateDailyTask_def removeDailyTask_def splice1_def
      trim_def isWhiteSpace_def run_defs)

subsection \<open>Toggling a task (C9)\<close>

text \<open>
  Claim C9. \<open>toggleTask(id)\<close> never changes \<open>tasks\<close> (no task moves). When no task has the
  identifier, the world is unchanged: nothing is written and nothing is thrown. Otherwise
  the first task in list order with that identifier gets \<open>completed\<close> replaced by its
  negation (\<open>true\<close> becomes \<open>false\<close> and \<open>false\<close> becomes \<open>true\<close>), its other properties and every
  other object stay as they were, and the state is written.
\<close>

theorem toggleTask_flips:
  assumes "heap_ok w"
  shows "tasks (toggleTask i w) = tasks w \<and>
     ((\<forall>t\<in>set (tasks w). getProp ''id'' (heap w ! t) \<noteq> i) \<longrightarrow> toggleTask i w = w) \<and>
     (\<forall>n<length (tasks w).
        getProp ''id'' (heap w ! (tasks w ! n)) = i \<and>
        (\<forall>m<n. getProp ''id'' (heap w ! (tasks w ! m)) \<noteq> i) \<longrightarrow>
        getProp ''completed'' (heap (toggleTask i w) ! (tasks w ! n)) =
          JBool (\<not> truthy (getProp ''completed'' (heap w ! (tasks w ! n)))) \<and>
        (\<forall>b. getProp ''completed'' (heap w ! (tasks w ! n)) = JBool b \<longrightarrow>
           getProp ''completed'' (heap (toggleTask i w) ! (tasks w ! n)) = JBool (\<not> b)) \<and>
        (\<forall>k. k \<noteq> ''completed'' \<longrightarrow>
           getProp k (heap (toggleTask i w) ! (tasks w ! n)) = getProp k (heap w ! (tasks w ! n))) \<and>
        (\<forall>r. r \<noteq> tasks w ! n \<longrightarrow> heap (toggleTask i w) ! r = heap w ! r) \<and>
        dailyRoutine (toggleTask i w) = dailyRoutine w \<and>
        written (toggleTask i w) = written w @ [snapshot (toggleTask i w)])"
proof -
  have pos: "tasks (toggleTask i w) = tasks w"
    by (simp add: toggleTask_def saveState_def split: option.splits)
  have none: "toggleTask i w = w" if "\<forall>t\<in>set (tasks w). getProp ''id'' (heap w ! t) \<noteq> i"
  proof -
    from that have "findTask i w = None" by (simp add: findTask_None)
    then show ?thesis by (simp add: toggleTask_def)
  qed
  have some: "getProp ''completed'' (heap (toggleTask i w) ! (tasks w ! n)) =
          JBool (\<not> truthy (getProp ''completed'' (heap w ! (tasks w ! n)))) \<and>
        (\<forall>b. getProp ''completed'' (heap w ! (tasks w ! n)) = JBool b \<longrightarrow>
           getProp ''completed'' (heap (toggleTask i w) ! (tasks w ! n)) = JBool (\<not> b)) \<and>
        (\<forall>k. k \<noteq> ''completed'' \<longrightarrow>
           getProp k (heap (toggleTask i w) ! (tasks w ! n)) = getProp k (heap w ! (tasks w ! n))) \<and>
        (\<forall>r. r \<noteq> tasks w ! n \<longrightarrow> heap (toggleTask i w) ! r = heap w ! r) \<and>
        dailyRoutine (toggleTask i w) = dailyRoutine w \<and>
        written (toggleTask i w) = written w @ [snapshot (toggleTask i w)]"
    if n: "n < length (tasks w)" and m: "getProp ''id'' (heap w ! (tasks w ! n)) = i"
      and f: "\<forall>m<n. getProp ''id'' (heap w ! (tasks w ! m)) \<noteq> i" for n
  proof -
    let ?t = "tasks w ! n"
    have t: "?t < length (heap w)"
      using assms n by (simp add: heap_ok_def list_all_length)
    note eq = toggleTask_found [OF findTask_first [OF n m f]]
    show ?thesis
      unfolding eq using t by (simp add: saveState_def snapshot_def getProp_setProp)
  qed
  show ?thesis
    using pos none some by blast
qed

theorem toggleTask_flips_witness:
  "heap_ok first_run_world \<and>
   tasks (toggleTask (JStr ''_aa'') first_run_world) = [3, 4, 5] \<and>
   getProp ''completed'' (heap first_run_world ! 4) = JBool False \<and>
   getProp ''completed'' (heap (toggleTask (JStr ''_aa'') first_run_world) ! 4) = JBool True \<and>
   heap (toggleTask (JStr ''_aa'') first_run_world) ! 3 = heap first_run_world ! 3 \<and>
   toggleTask (JStr ''nobody'') first_run_world = first_run_world"
  using toggleTask_flips [of first_run_world "JStr ''_aa''"]
  by (simp add: first_run_world_eq toggleTask_def findTask_def run_defs)

subsection \<open>Editing a template at any index (C10)\<close>

text \<open>
  Claim C10 says that \<open>updateDailyTask\<close> never raises. With three templates, index 3 and a
  non-blank text, \<open>state.dailyRoutine[3]\<close> is \<open>undefined\<close> and the assignment to its \<open>text\<close>
  throws a TypeError.
\<close>

theorem updateDailyTask_raises:
  "\<not> (\<exists>w'. updateDailyTask 3 ''Walk'' first_run_world = Inr w') \<and>
   length (dailyRoutine first_run_world) = 3 \<and>
   updateDailyTask 3 ''Walk'' first_run_world = Inl (TypeError, first_run_world)"
  by (simp add: first_run_world_eq updateDailyTask_def trim_def isWhiteSpace_def)

text \<open>
  Claim C10, as amended. \<open>updateDailyTask(index, newText)\<close> has three outcomes. If the
  trimmed text is empty it returns and the world is unchanged, whatever the index. If the
  trimmed text is not empty and \<open>0 \<le> index < length\<close>, it returns, the template at that
  index has the trimmed text as its \<open>text\<close>, nothing else is changed, and the state is
  written. If the trimmed text is not empty and the index is out of range, it throws a
  TypeError and the world is unchanged. The other two operations with a target absorb
  a target that does not exist: \<open>toggleTask\<close> with an identifier that no task has leaves the
  world unchanged, and \<open>removeDailyTask\<close> with an index at or beyond the length removes
  nothing.
\<close>

theorem updateDailyTask_outcomes:
  assumes "heap_ok w"
  shows "(trim newText = [] \<longrightarrow> updateDailyTask index newText w = Inr w) \<and>
     (trim newText \<noteq> [] \<and> 0 \<le> index \<and> index < int (length (dailyRoutine w)) \<longrightarrow>
        (\<exists>w'. updateDailyTask index newText w = Inr w' \<and>
           dailyRoutine w' = dailyRoutine w \<and>
           tasks w' = tasks w \<and> settings w' = settings w \<and> lastOpenDate w' = lastOpenDate w \<and>
           length (heap w') = length (heap w) \<and>
           getProp ''text'' (heap w' ! (dailyRoutine w ! nat index)) = JStr (trim newText) \<and>
           (\<forall>k. k \<noteq> ''text'' \<longrightarrow>
              getProp k (heap w' ! (dailyRoutine w ! nat index)) =
              getProp k (heap w ! (dailyRoutine w ! nat index))) \<and>
           (\<forall>r. r \<noteq> dailyRoutine w ! nat index \<longrightarrow> heap w' ! r = heap w ! r) \<and>
           written w' = written w @ [snapshot w'])) \<and>
     (trim newText \<noteq> [] \<and> (index < 0 \<or> int (length (dailyRoutine w)) \<le> index) \<longrightarrow>
        updateDailyTask index newText w = Inl (TypeError, w)) \<and>
     ((\<forall>t\<in>set (tasks w). getProp ''id'' (heap w ! t) \<noteq> i) \<longrightarrow> toggleTask i w = w) \<and>
     (int (length (dailyRoutine w)) \<le> index \<longrightarrow>
        dailyRoutine (removeDailyTask index w) = dailyRoutine w \<and>
        tasks (removeDailyTask index w) = tasks w \<and>
        heap (removeDailyTask index w) = heap w)"
proof -
  have valid: "dailyRoutine w ! nat index < length (heap w)"
    if "0 \<le> index" "index < int (length (dailyRoutine w))"
    using assms that by (simp add: heap_ok_def list_all_length)
  have upd: "(trim newText = [] \<longrightarrow> updateDailyTask index newText w = Inr w) \<and>
     (trim newText \<noteq> [] \<and> 0 \<le> index \<and> index < int (length (dailyRoutine w)) \<longrightarrow>
        (\<exists>w'. updateDailyTask index newText w = Inr w' \<and>
           dailyRoutine w' = dailyRoutine w \<and>
           tasks w' = tasks w \<and> settings w' = settings w \<and> lastOpenDate w' = lastOpenDate w \<and>
           length (heap w') = length (heap w) \<and>
           getProp ''text'' (heap w' ! (dailyRoutine w ! nat index)) = JStr (trim newText) \<and>
           (\<forall>k. k \<noteq> ''text'' \<longrightarrow>
              getProp k (heap w' ! (dailyRoutine w ! nat index)) =
              getProp k (heap w ! (dailyRoutine w ! nat index))) \<and>
           (\<forall>r. r \<noteq> dailyRoutine w ! nat index \<longrightarrow> heap w' ! r = heap w ! r) \<and>
           written w' = written w @ [snapshot w'])) \<and>
     (trim newText \<noteq> [] \<and> (index < 0 \<or> int (length (dailyRoutine w)) \<le> index) \<longrightarrow>
        updateDailyTask index newText w = Inl (TypeError, w))"
    using valid
    by (auto simp: updateDailyTask_def Let_def saveState_def snapshot_def getProp_setProp)
  have tog: "toggleTask i w = w" if "\<forall>t\<in>set (tasks w). getProp ''id'' (heap w ! t) \<noteq> i"
  proof -
    from that have "findTask i w = None" by (simp add: findTask_None)
    then show ?thesis by (simp add: toggleTask_def)
  qed
  have rem: "dailyRoutine (removeDailyTask index w) = dailyRoutine w \<and>
        tasks (removeDailyTask index w) = tasks w \<and> heap (removeDailyTask index w) = heap w"
    if "int (length (dailyRoutine w)) \<le> index"
    using that by (simp add: removeDailyTask_def saveState_def splice1_def Let_def)
  show ?thesis
    using upd tog rem by blast
qed

theorem updateDailyTask_outcomes_witness:
  "heap_ok first_run_world \<and>
   updateDailyTask 1 ''   '' first_run_world = Inr first_run_world \<and>
   getProp ''text'' (heap (after (updateDailyTask 1 '' Walk '' first_run_world)) ! 1) = JStr ''Walk'' \<and>
   updateDailyTask 3 ''Walk'' first_run_world = Inl (TypeError, first_run_world) \<and>
   updateDailyTask (- 1) ''Walk'' first_run_world = Inl (TypeError, first_run_world)"
  using updateDailyTask_outcomes [of first_run_world "''   ''" 1]
  by (simp add: first_run_world_eq updateDailyTask_def trim_def isWhiteSpace_def run_defs)

end
